theory Spec2Isabelle
  imports
    Main
    "HOL-Library.Char_ord"
    "HOL-Library.List_Lexorder"
    "HOL-Library.Multiset"
begin

section \<open>Strings of the Go runtime\<close>

text \<open>
  A Go string is a sequence of bytes, and so is \<^typ>\<open>string\<close>. \<open>sort.Strings\<close> orders
  strings bytewise and lexicographically, a proper prefix first: this is the order of
  \<open>char list\<close> obtained from the byte order on \<^typ>\<open>char\<close>, and \<^const>\<open>sort\<close> returns
  the one ascending arrangement of its argument.
\<close>

definition newline :: string where
  "newline = [CHR 0x0A]"

text \<open>\<open>strings.Join(elems, sep)\<close>.\<close>

fun Join :: "string list \<Rightarrow> string \<Rightarrow> string" where
  "Join [] sep = []"
| "Join [x] sep = x"
| "Join (x # y # ys) sep = x @ sep @ Join (y # ys) sep"

section \<open>fields: the metadata of one drain\<close>

text \<open>
  \<open>fields.orig\<close> is a \<open>pdata.AttributeMap\<close>: a sequence of key-value entries that
  \<open>Range\<close> visits in order. The values are \<open>pdata.AttributeValue\<close>s of a library that is
  not part of the repository; their rendering \<open>AsString\<close> is a parameter of the model.
\<close>

type_synonym 'v AttributeMap = "(string \<times> 'v) list"

definition attributeKeySourceHost :: string where
  "attributeKeySourceHost = ''_sourceHost''"

definition attributeKeySourceName :: string where
  "attributeKeySourceName = ''_sourceName''"

definition attributeKeySourceCategory :: string where
  "attributeKeySourceCategory = ''_sourceCategory''"

text \<open>
  \<open>strings.NewReplacer(",", "_", "=", ":", "\n", "_")\<close>: every old string is one byte, so
  \<open>Replace\<close> rewrites the argument byte by byte.
\<close>

definition replacer :: "char \<Rightarrow> char" where
  "replacer c =
     (if c = CHR '','' then CHR ''_''
      else if c = CHR ''='' then CHR '':''
      else if c = CHR 0x0A then CHR ''_''
      else c)"

definition sanitizeField :: "string \<Rightarrow> string" where
  "sanitizeField fld = map replacer fld"

text \<open>The callback handed to \<open>Range\<close> in \<open>fields.string\<close>, applied to one entry.\<close>

definition string_visit :: "('v \<Rightarrow> string) \<Rightarrow> string list \<Rightarrow> string \<times> 'v \<Rightarrow> string list" where
  "string_visit asString returnValue kv =
     (case kv of (k, v) \<Rightarrow>
        if k = attributeKeySourceCategory \<or> k = attributeKeySourceHost \<or> k = attributeKeySourceName
        then returnValue
        else
          let sv = asString v in
          if length sv = 0 then returnValue
          else returnValue @ [sanitizeField k @ ''='' @ sanitizeField sv])"

fun string_range :: "('v \<Rightarrow> string) \<Rightarrow> 'v AttributeMap \<Rightarrow> string list \<Rightarrow> string list" where
  "string_range asString [] returnValue = returnValue"
| "string_range asString (kv # rest) returnValue =
     string_range asString rest (string_visit asString returnValue kv)"

definition fields_string :: "('v \<Rightarrow> string) \<Rightarrow> 'v AttributeMap \<Rightarrow> string" where
  "fields_string asString orig = Join (sort (string_range asString orig [])) '', ''"

text \<open>
  The rendering as the specification words it: drop the reserved keys and the entries
  whose value renders empty, render what is left as sanitized \<open>key=value\<close>, sort, join.
\<close>

definition reserved_keys :: "string set" where
  "reserved_keys = {''_sourceCategory'', ''_sourceHost'', ''_sourceName''}"

definition spec_fields_string :: "('v \<Rightarrow> string) \<Rightarrow> 'v AttributeMap \<Rightarrow> string" where
  "spec_fields_string asString orig =
     Join (sort (map (\<lambda>kv. sanitizeField (fst kv) @ ''='' @ sanitizeField (asString (snd kv)))
                  (filter (\<lambda>kv. fst kv \<notin> reserved_keys \<and> asString (snd kv) \<noteq> []) orig))) '', ''"

section \<open>Errors\<close>

text \<open>
  Go errors are values compared by identity. \<open>errUnauthorized\<close> is the one package-level
  sentinel made by \<open>errors.New("unauthorized")\<close>; every \<open>fmt.Errorf\<close> and every other
  \<open>errors.New\<close> makes a fresh value that carries its message; \<open>multierr.Combine\<close> wraps
  several errors into one. Errors of the collaborators (compressor, HTTP client,
  marshalers) are values of the same type.
\<close>

datatype error =
    errUnauthorized
  | Errorf string
  | multiError "error list"

fun Error :: "error \<Rightarrow> string" where
  "Error errUnauthorized = ''unauthorized''"
| "Error (Errorf msg) = msg"
| "Error (multiError es) = Join (map Error es) ''; ''"

fun multierr_Errors :: "error \<Rightarrow> error list" where
  "multierr_Errors (multiError es) = es"
| "multierr_Errors e = [e]"

text \<open>
  \<open>multierr.Combine\<close> on a slice without nil entries: nil for the empty slice, the error
  itself for a single one, otherwise one \<open>multiError\<close> with nested ones flattened.
\<close>

fun multierr_Combine :: "error list \<Rightarrow> error option" where
  "multierr_Combine [] = None"
| "multierr_Combine [e] = Some e"
| "multierr_Combine es = Some (multiError (concat (map multierr_Errors es)))"

section \<open>Configuration, requests, responses\<close>

text \<open>
  The format, encoding and pipeline types are string types whose named constants are
  declared outside the files at hand; each is a datatype with the named constants and one
  more constructor for every other string.
\<close>

datatype PipelineType = MetricsPipeline | LogsPipeline | TracesPipeline | OtherPipeline string

datatype LogFormatType = TextFormat | JSONFormat | OTLPLogFormat | OtherLogFormat string

datatype MetricFormatType =
  PrometheusFormat | Carbon2Format | GraphiteFormat | OTLPMetricFormat | OtherMetricFormat string

datatype TraceFormatType = OTLPTraceFormat | OtherTraceFormat string

datatype CompressEncodingType =
  GZIPCompression | DeflateCompression | NoCompression | OtherCompression string

record Config =
  Endpoint :: string
  Client :: string
  CompressEncoding :: CompressEncodingType
  LogFormat :: LogFormatType
  MetricFormat :: MetricFormatType
  TraceFormat :: TraceFormatType
  MaxRequestBodySize :: int

definition maxBufferSize :: int where
  "maxBufferSize = 1024 * 1024"

definition headerContentType :: string where "headerContentType = ''Content-Type''"
definition headerContentEncoding :: string where "headerContentEncoding = ''Content-Encoding''"
definition headerClient :: string where "headerClient = ''X-Sumo-Client''"
definition headerHost :: string where "headerHost = ''X-Sumo-Host''"
definition headerName :: string where "headerName = ''X-Sumo-Name''"
definition headerCategory :: string where "headerCategory = ''X-Sumo-Category''"
definition headerFields :: string where "headerFields = ''X-Sumo-Fields''"

definition contentTypeLogs :: string where
  "contentTypeLogs = ''application/x-www-form-urlencoded''"
definition contentTypePrometheus :: string where
  "contentTypePrometheus = ''application/vnd.sumologic.prometheus''"
definition contentTypeCarbon2 :: string where
  "contentTypeCarbon2 = ''application/vnd.sumologic.carbon2''"
definition contentTypeGraphite :: string where
  "contentTypeGraphite = ''application/vnd.sumologic.graphite''"
definition contentTypeOTLP :: string where
  "contentTypeOTLP = ''application/x-protobuf''"

definition contentEncodingGzip :: string where "contentEncodingGzip = ''gzip''"
definition contentEncodingDeflate :: string where "contentEncodingDeflate = ''deflate''"

text \<open>An \<open>http.Header\<close> as the list of its key-value lines, in the order they were added.\<close>

type_synonym Header = "(string \<times> string) list"

definition Header_Add :: "Header \<Rightarrow> string \<Rightarrow> string \<Rightarrow> Header" where
  "Header_Add h k v = h @ [(k, v)]"

definition Header_Set :: "Header \<Rightarrow> string \<Rightarrow> string \<Rightarrow> Header" where
  "Header_Set h k v = filter (\<lambda>kv. fst kv \<noteq> k) h @ [(k, v)]"

text \<open>An outbound POST request, and the part of an \<open>http.Response\<close> that the sender reads.\<close>

record request =
  URL :: string
  Data :: string
  Header :: Header

record response =
  StatusCode :: int
  Status :: string
  ContentLength :: int
  Body :: string

text \<open>The two JSON shapes declared inside \<open>handleReceiverResponse\<close>.\<close>

record ReceiverResponseCore =
  core_Status :: int
  ID :: string
  Code :: string
  Message :: string

record ReceiverErrorResponse = ReceiverResponseCore +
  Errors :: "(string \<times> string) list"

definition zeroReceiverErrorResponse :: ReceiverErrorResponse where
  "zeroReceiverErrorResponse =
     \<lparr>core_Status = 0, ID = [], Code = [], Message = [], Errors = []\<rparr>"

text \<open>
  \<open>fmt.Sprintf("%+v", rResponse.Errors)\<close> for a slice of structs with the two string fields
  \<open>Code\<close> and \<open>Message\<close>.
\<close>

definition fmt_Errors :: "(string \<times> string) list \<Rightarrow> string" where
  "fmt_Errors es =
     ''['' @ Join (map (\<lambda>e. ''{Code:'' @ fst e @ '' Message:'' @ snd e @ ''}'') es) '' '' @ '']''"

section \<open>The outside world\<close>

text \<open>
  Two effects leave the sender: HTTP requests handed to \<open>client.Do\<close> and entries written
  to the logger. Both are recorded in order.
\<close>

datatype zap_level = DebugLevel | WarnLevel

datatype zap_value =
    zap_String string
  | zap_ByteString string
  | zap_Pipeline PipelineType
  | zap_Headers Header

datatype log_entry = LogEntry zap_level string "(string \<times> zap_value) list"

record world =
  requests :: "request list"
  logged :: "log_entry list"

definition logger_Debug :: "string \<Rightarrow> (string \<times> zap_value) list \<Rightarrow> world \<Rightarrow> world" where
  "logger_Debug msg flds w = w\<lparr>logged := logged w @ [LogEntry DebugLevel msg flds]\<rparr>"

definition logger_Warn :: "string \<Rightarrow> (string \<times> zap_value) list \<Rightarrow> world \<Rightarrow> world" where
  "logger_Warn msg flds w = w\<lparr>logged := logged w @ [LogEntry WarnLevel msg flds]\<rparr>"

section \<open>The sender and its collaborators\<close>

text \<open>
  The fields of \<open>sender\<close> that never change after \<open>newSender\<close>. The collaborators are
  functions of the record: the libraries the sender calls, and the formatters, which turn
  one record into a line through \<open>pdata\<close> and \<open>encoding/json\<close> and are taken as given:
  \<^item> \<open>compress\<close>: \<open>compressor.compress\<close>, from the body to the compressed data or an error;
  \<^item> \<open>NewRequest_err\<close>: the error of \<open>http.NewRequestWithContext\<close> for a URL, if any;
  \<^item> \<open>client_Do\<close>: \<open>client.Do\<close>, given the requests made so far and the request;
  \<^item> \<open>Decode_core\<close>, \<open>Decode_error\<close>: \<open>json.NewDecoder(tr).Decode\<close> on the response body for
    the two shapes; the first component is what the decoder has read through the
    \<open>TeeReader\<close> into the buffer \<open>b\<close>, the second the decoded value, \<open>None\<close> when decoding fails;
  \<^item> \<open>sources_host\<close>, \<open>sources_name\<close>, \<open>sources_category\<close>: the source templates, \<open>None\<close> when
    \<open>isSet\<close> is false, otherwise \<open>format\<close>;
  \<^item> \<open>logToText\<close>, \<open>logToJSON\<close> and the three \<open>metric2String\<close>: the line formatters;
  \<^item> \<open>MarshalLogs\<close>, \<open>MarshalMetrics\<close>: building and marshaling the OTLP payload of a buffer;
  \<^item> \<open>MetricFormat_name\<close>: the strings behind the named metric format constants.
\<close>

record ('r, 'm, 'v) sender =
  config :: Config
  dataUrlMetrics :: string
  dataUrlLogs :: string
  dataUrlTraces :: string
  AsString :: "'v \<Rightarrow> string"
  compress :: "string \<Rightarrow> error + string"
  NewRequest_err :: "string \<Rightarrow> error option"
  client_Do :: "request list \<Rightarrow> request \<Rightarrow> error + response"
  Decode_core :: "string \<Rightarrow> string \<times> ReceiverResponseCore option"
  Decode_error :: "string \<Rightarrow> string \<times> ReceiverErrorResponse option"
  sources_host :: "('v AttributeMap \<Rightarrow> string) option"
  sources_name :: "('v AttributeMap \<Rightarrow> string) option"
  sources_category :: "('v AttributeMap \<Rightarrow> string) option"
  logToText :: "'r \<Rightarrow> string"
  logToJSON :: "'r \<Rightarrow> error + string"
  prometheus_metric2String :: "'m \<Rightarrow> string"
  carbon2Metric2String :: "'m \<Rightarrow> string"
  graphite_metric2String :: "'m \<Rightarrow> string"
  MarshalLogs :: "'r list \<Rightarrow> 'v AttributeMap \<Rightarrow> error + string"
  MarshalMetrics :: "'m list \<Rightarrow> 'v AttributeMap \<Rightarrow> error + string"
  MetricFormat_name :: "MetricFormatType \<Rightarrow> string"

text \<open>The buffers of the sender, and the world it acts on.\<close>

record ('r, 'm) state =
  logBuffer :: "'r list"
  metricBuffer :: "'m list"
  world :: world

section \<open>Building the request\<close>

definition createRequest ::
  "('r, 'm, 'v) sender \<Rightarrow> PipelineType \<Rightarrow> string \<Rightarrow> error + request" where
  "createRequest s pipeline data =
     (case (if Endpoint (config s) = []
            then (case pipeline of
                    MetricsPipeline \<Rightarrow> Inr (dataUrlMetrics s)
                  | LogsPipeline \<Rightarrow> Inr (dataUrlLogs s)
                  | TracesPipeline \<Rightarrow> Inr (dataUrlTraces s)
                  | OtherPipeline p \<Rightarrow> Inl (Errorf (''unknown pipeline type: '' @ p)))
            else Inr (Endpoint (config s))) of
        Inl err \<Rightarrow> Inl err
      | Inr url \<Rightarrow>
          (case NewRequest_err s url of
             Some err \<Rightarrow> Inl err
           | None \<Rightarrow> Inr \<lparr>URL = url, Data = data, Header = []\<rparr>))"

definition addCompressHeader :: "request \<Rightarrow> CompressEncodingType \<Rightarrow> error + request" where
  "addCompressHeader req enc =
     (case enc of
        GZIPCompression \<Rightarrow>
          Inr (req\<lparr>Header := Header_Set (Header req) headerContentEncoding contentEncodingGzip\<rparr>)
      | DeflateCompression \<Rightarrow>
          Inr (req\<lparr>Header := Header_Set (Header req) headerContentEncoding contentEncodingDeflate\<rparr>)
      | NoCompression \<Rightarrow> Inr req
      | OtherCompression e \<Rightarrow> Inl (Errorf (''invalid content encoding: '' @ e)))"

definition addSourcesHeaders ::
  "request \<Rightarrow> ('r, 'm, 'v) sender \<Rightarrow> 'v AttributeMap \<Rightarrow> request" where
  "addSourcesHeaders req s flds =
     (let req1 = (case sources_host s of
                    Some format \<Rightarrow> req\<lparr>Header := Header_Add (Header req) headerHost (format flds)\<rparr>
                  | None \<Rightarrow> req);
          req2 = (case sources_name s of
                    Some format \<Rightarrow> req1\<lparr>Header := Header_Add (Header req1) headerName (format flds)\<rparr>
                  | None \<Rightarrow> req1)
      in (case sources_category s of
            Some format \<Rightarrow> req2\<lparr>Header := Header_Add (Header req2) headerCategory (format flds)\<rparr>
          | None \<Rightarrow> req2))"

definition addLogsHeaders ::
  "('v \<Rightarrow> string) \<Rightarrow> request \<Rightarrow> LogFormatType \<Rightarrow> 'v AttributeMap \<Rightarrow> request" where
  "addLogsHeaders asString req lf flds =
     (let req1 = (case lf of
                    OTLPLogFormat \<Rightarrow>
                      req\<lparr>Header := Header_Add (Header req) headerContentType contentTypeOTLP\<rparr>
                  | _ \<Rightarrow> req\<lparr>Header := Header_Add (Header req) headerContentType contentTypeLogs\<rparr>);
          fieldsStr = fields_string asString flds
      in if fieldsStr \<noteq> [] then req1\<lparr>Header := Header_Add (Header req1) headerFields fieldsStr\<rparr>
         else req1)"

definition addMetricsHeaders :: "request \<Rightarrow> MetricFormatType \<Rightarrow> error + request" where
  "addMetricsHeaders req mf =
     (case mf of
        PrometheusFormat \<Rightarrow>
          Inr (req\<lparr>Header := Header_Add (Header req) headerContentType contentTypePrometheus\<rparr>)
      | Carbon2Format \<Rightarrow>
          Inr (req\<lparr>Header := Header_Add (Header req) headerContentType contentTypeCarbon2\<rparr>)
      | GraphiteFormat \<Rightarrow>
          Inr (req\<lparr>Header := Header_Add (Header req) headerContentType contentTypeGraphite\<rparr>)
      | OTLPMetricFormat \<Rightarrow>
          Inr (req\<lparr>Header := Header_Add (Header req) headerContentType contentTypeOTLP\<rparr>)
      | OtherMetricFormat f \<Rightarrow> Inl (Errorf (''unsupported metrics format: '' @ f)))"

definition addTracesHeaders :: "request \<Rightarrow> TraceFormatType \<Rightarrow> error + request" where
  "addTracesHeaders req tf =
     (case tf of
        OTLPTraceFormat \<Rightarrow>
          Inr (req\<lparr>Header := Header_Add (Header req) headerContentType contentTypeOTLP\<rparr>)
      | OtherTraceFormat f \<Rightarrow> Inl (Errorf (''unsupported traces format: '' @ f)))"

definition addRequestHeaders ::
  "('r, 'm, 'v) sender \<Rightarrow> request \<Rightarrow> PipelineType \<Rightarrow> 'v AttributeMap \<Rightarrow> error + request" where
  "addRequestHeaders s req pipeline flds =
     (let req0 = req\<lparr>Header := Header_Add (Header req) headerClient (Client (config s))\<rparr> in
      case addCompressHeader req0 (CompressEncoding (config s)) of
        Inl err \<Rightarrow> Inl err
      | Inr req1 \<Rightarrow>
          (let req2 = addSourcesHeaders req1 s flds in
           case pipeline of
             LogsPipeline \<Rightarrow> Inr (addLogsHeaders (AsString s) req2 (LogFormat (config s)) flds)
           | MetricsPipeline \<Rightarrow> addMetricsHeaders req2 (MetricFormat (config s))
           | TracesPipeline \<Rightarrow> addTracesHeaders req2 (TraceFormat (config s))
           | OtherPipeline p \<Rightarrow> Inl (Errorf (''unexpected pipeline: '' @ p))))"

section \<open>Panics\<close>

text \<open>
  A call either returns a value or panics. A panic unwinds the callers, so nothing is
  returned and the local variables are lost; what stays is the state the panic left behind.
\<close>

datatype ('a, 's) outcome = Returns 'a | Panics 's

text \<open>
  \<open>bytes.NewBuffer(make([]byte, 0, n))\<close>: \<open>make\<close> panics at run time when the capacity is
  negative; otherwise the buffer starts empty. Running out of memory for a large capacity
  is outside the model.
\<close>

definition NewBuffer_make :: "int \<Rightarrow> string option" where
  "NewBuffer_make n = (if n < 0 then None else Some [])"

section \<open>Interpreting the response\<close>

definition handleReceiverResponse ::
  "('r, 'm, 'v) sender \<Rightarrow> response \<Rightarrow> world \<Rightarrow> (error option \<times> world, world) outcome" where
  "handleReceiverResponse s resp w =
     (if ContentLength resp = 0 \<and> (StatusCode resp = 200 \<or> StatusCode resp = 204)
      then Returns (None, w)
      else if StatusCode resp = 200 \<or> StatusCode resp = 204 then
        (case NewBuffer_make (ContentLength resp) of
           None \<Rightarrow> Panics w
         | Some b0 \<Rightarrow>
             (case Decode_core s (Body resp) of
                (b, None) \<Rightarrow>
                  Returns (None, logger_Warn ''Error decoding receiver response''
                                   [(''body'', zap_ByteString (b0 @ b))] w)
              | (b, Some rResponse) \<Rightarrow>
                  (let l0 = [(''status'', zap_String (Status resp))];
                       l1 = (if length (ID rResponse) > 0
                             then l0 @ [(''id'', zap_String (ID rResponse))] else l0);
                       l2 = (if length (Code rResponse) > 0
                             then l1 @ [(''code'', zap_String (Code rResponse))] else l1);
                       l3 = (if length (Message rResponse) > 0
                             then l2 @ [(''message'', zap_String (Message rResponse))] else l2)
                   in Returns (None, logger_Warn ''There was an issue sending data'' l3 w))))
      else if StatusCode resp = 401 then Returns (Some errUnauthorized, w)
      else
        (case (if ContentLength resp > 0
               then (case NewBuffer_make (ContentLength resp) of
                       None \<Rightarrow> None
                     | Some b0 \<Rightarrow>
                         (case Decode_error s (Body resp) of (b, r) \<Rightarrow> Some (b0 @ b, r)))
               else Some ([], Some zeroReceiverErrorResponse)) of
           None \<Rightarrow> Panics w
         | Some (b, None) \<Rightarrow>
             Returns (Some (Errorf (''failed to decode API response (status: '' @ Status resp
                                      @ ''): '' @ b)), w)
         | Some (b, Some rResponse) \<Rightarrow>
             (let errMsgs0 = [''status: '' @ Status resp];
                  errMsgs1 = (if length (ID rResponse) > 0
                              then errMsgs0 @ [''id: '' @ ID rResponse] else errMsgs0);
                  errMsgs2 = (if length (Code rResponse) > 0
                              then errMsgs1 @ [''code: '' @ Code rResponse] else errMsgs1);
                  errMsgs3 = (if length (Message rResponse) > 0
                              then errMsgs2 @ [''message: '' @ Message rResponse] else errMsgs2);
                  errMsgs4 = (if length (Errors rResponse) > 0
                              then errMsgs3 @ [''errors: '' @ fmt_Errors (Errors rResponse)]
                              else errMsgs3)
              in Returns (Some (Errorf (''failed sending data: '' @ Join errMsgs4 '', '')), w))))"

section \<open>send\<close>

definition send ::
  "('r, 'm, 'v) sender \<Rightarrow> PipelineType \<Rightarrow> string \<Rightarrow> 'v AttributeMap \<Rightarrow> world
     \<Rightarrow> (error option \<times> world, world) outcome" where
  "send s pipeline body flds w =
     (case compress s body of
        Inl err \<Rightarrow> Returns (Some err, w)
      | Inr data \<Rightarrow>
          (case createRequest s pipeline data of
             Inl err \<Rightarrow> Returns (Some err, w)
           | Inr req0 \<Rightarrow>
               (case addRequestHeaders s req0 pipeline flds of
                  Inl err \<Rightarrow> Returns (Some err, w)
                | Inr req \<Rightarrow>
                    (let w1 = logger_Debug ''Sending data''
                                [(''pipeline'', zap_Pipeline pipeline),
                                 (''headers'', zap_Headers (Header req))] w;
                         w2 = w1\<lparr>requests := requests w1 @ [req]\<rparr>
                     in case client_Do s (requests w1) req of
                          Inl err \<Rightarrow> Returns (Some err, w2)
                        | Inr resp \<Rightarrow> handleReceiverResponse s resp w2))))"

section \<open>The batch body builder\<close>

text \<open>
  The body is a \<open>strings.Builder\<close>. Its \<open>WriteString\<close> appends and returns the number of
  bytes written together with an error, which the library always leaves nil.
\<close>

definition Builder_Len :: "string \<Rightarrow> int" where
  "Builder_Len b = int (length b)"

definition Builder_Reset :: "string \<Rightarrow> string" where
  "Builder_Reset b = []"

definition Builder_WriteString :: "string \<Rightarrow> string \<Rightarrow> string \<times> int \<times> error option" where
  "Builder_WriteString b str = (b @ str, int (length str), None)"

record appendResponse =
  sent :: bool
  appended :: bool

definition newAppendResponse :: appendResponse where
  "newAppendResponse = \<lparr>sent = False, appended = True\<rparr>"

definition appendAndSend ::
  "('r, 'm, 'v) sender \<Rightarrow> string \<Rightarrow> PipelineType \<Rightarrow> string \<Rightarrow> 'v AttributeMap \<Rightarrow> world
     \<Rightarrow> ((appendResponse \<times> error option) \<times> string \<times> world, world) outcome" where
  "appendAndSend s line pipeline body flds w =
     (let errors0 = []; ar0 = newAppendResponse in
      case (if Builder_Len body > 0
               \<and> Builder_Len body + int (length line) \<ge> MaxRequestBodySize (config s)
            then (case send s pipeline body flds w of
                    Panics w' \<Rightarrow> Panics w'
                  | Returns (Some err, w') \<Rightarrow>
                      Returns (ar0\<lparr>sent := True\<rparr>, errors0 @ [err], Builder_Reset body, w')
                  | Returns (None, w') \<Rightarrow>
                      Returns (ar0\<lparr>sent := True\<rparr>, errors0, Builder_Reset body, w'))
            else Returns (ar0, errors0, body, w)) of
        Panics w' \<Rightarrow> Panics w'
      | Returns (ar1, errors1, body1, w1) \<Rightarrow>
      case (if Builder_Len body1 > 0
            then (case Builder_WriteString body1 newline of
                    (b, n, Some err) \<Rightarrow> (ar1\<lparr>appended := False\<rparr>, errors1 @ [err], b)
                  | (b, n, None) \<Rightarrow> (ar1, errors1, b))
            else (ar1, errors1, body1)) of
        (ar2, errors2, body2) \<Rightarrow>
      case (if appended ar2
            then (case Builder_WriteString body2 line of
                    (b, n, Some err) \<Rightarrow> (ar2\<lparr>appended := False\<rparr>, errors2 @ [err], b)
                  | (b, n, None) \<Rightarrow> (ar2, errors2, b))
            else (ar2, errors2, body2)) of
        (ar3, errors3, body3) \<Rightarrow>
      if length errors3 > 0 then Returns ((ar3, multierr_Combine errors3), body3, w1)
      else Returns ((ar3, None), body3, w1))"

section \<open>Draining a buffer line by line\<close>

text \<open>The local variables of \<open>sendLogs\<close> and \<open>sendMetrics\<close>, with the world they act on.\<close>

record 'a locals =
  l_body :: string
  l_errs :: "error list"
  droppedRecords :: "'a list"
  currentRecords :: "'a list"
  l_world :: world

definition init_locals :: "world \<Rightarrow> 'a locals" where
  "init_locals w =
     \<lparr>l_body = [], l_errs = [], droppedRecords = [], currentRecords = [], l_world = w\<rparr>"

text \<open>
  One iteration of the loop of \<open>sendLogs\<close> over \<open>s.logBuffer\<close>: the \<open>switch\<close> that formats
  the record, then the rest of the loop body.
\<close>

definition sendLogs_format :: "('r, 'm, 'v) sender \<Rightarrow> 'r \<Rightarrow> string \<times> error option" where
  "sendLogs_format s rec =
     (case LogFormat (config s) of
        TextFormat \<Rightarrow> (logToText s rec, None)
      | JSONFormat \<Rightarrow>
          (case logToJSON s rec of Inl e \<Rightarrow> ([], Some e) | Inr line \<Rightarrow> (line, None))
      | _ \<Rightarrow> ([], Some (Errorf ''unexpected log format'')))"

definition sendLogs_iter ::
  "('r, 'm, 'v) sender \<Rightarrow> 'v AttributeMap \<Rightarrow> 'r \<Rightarrow> 'r locals \<Rightarrow> ('r locals, world) outcome" where
  "sendLogs_iter s flds rec L =
     (case sendLogs_format s rec of
        (formattedLine, Some err) \<Rightarrow>
          Returns (L\<lparr>droppedRecords := droppedRecords L @ [rec], l_errs := l_errs L @ [err]\<rparr>)
      | (formattedLine, None) \<Rightarrow>
          (case appendAndSend s formattedLine LogsPipeline (l_body L) flds (l_world L) of
             Panics w' \<Rightarrow> Panics w'
           | Returns ((ar, err), body', w') \<Rightarrow>
               (let L1 = L\<lparr>l_body := body', l_world := w'\<rparr>;
                    L2 = (case err of
                            Some e \<Rightarrow>
                              (let La = L1\<lparr>l_errs := l_errs L1 @ [e]\<rparr>;
                                   Lb = (if sent ar
                                         then La\<lparr>droppedRecords :=
                                                   droppedRecords La @ currentRecords La\<rparr>
                                         else La)
                               in if \<not> appended ar
                                  then Lb\<lparr>droppedRecords := droppedRecords Lb @ [rec]\<rparr>
                                  else Lb)
                          | None \<Rightarrow> L1);
                    L3 = (if sent ar then L2\<lparr>currentRecords := []\<rparr> else L2)
                in Returns (if appended ar then L3\<lparr>currentRecords := currentRecords L3 @ [rec]\<rparr>
                            else L3))))"

fun sendLogs_loop ::
  "('r, 'm, 'v) sender \<Rightarrow> 'v AttributeMap \<Rightarrow> 'r list \<Rightarrow> 'r locals \<Rightarrow> ('r locals, world) outcome" where
  "sendLogs_loop s flds [] L = Returns L"
| "sendLogs_loop s flds (rec # rest) L =
     (case sendLogs_iter s flds rec L of
        Panics w \<Rightarrow> Panics w
      | Returns L' \<Rightarrow> sendLogs_loop s flds rest L')"

definition sendOTLPLogs ::
  "('r, 'm, 'v) sender \<Rightarrow> 'v AttributeMap \<Rightarrow> ('r, 'm) state
     \<Rightarrow> (('r list \<times> error option) \<times> ('r, 'm) state, ('r, 'm) state) outcome" where
  "sendOTLPLogs s flds st =
     (case MarshalLogs s (logBuffer st) flds of
        Inl err \<Rightarrow> Returns ((logBuffer st, Some err), st)
      | Inr body \<Rightarrow>
          (case send s LogsPipeline body flds (world st) of
             Panics w \<Rightarrow> Panics (st\<lparr>world := w\<rparr>)
           | Returns (Some err, w) \<Rightarrow> Returns ((logBuffer st, Some err), st\<lparr>world := w\<rparr>)
           | Returns (None, w) \<Rightarrow> Returns (([], None), st\<lparr>world := w\<rparr>)))"

definition sendLogs ::
  "('r, 'm, 'v) sender \<Rightarrow> 'v AttributeMap \<Rightarrow> ('r, 'm) state
     \<Rightarrow> (('r list \<times> error option) \<times> ('r, 'm) state, ('r, 'm) state) outcome" where
  "sendLogs s flds st =
     (if LogFormat (config s) = OTLPLogFormat then sendOTLPLogs s flds st
      else
        (case sendLogs_loop s flds (logBuffer st) (init_locals (world st)) of
           Panics w \<Rightarrow> Panics (st\<lparr>world := w\<rparr>)
         | Returns L \<Rightarrow>
             (case (if Builder_Len (l_body L) > 0
                    then (case send s LogsPipeline (l_body L) flds (l_world L) of
                            Panics w \<Rightarrow> Panics w
                          | Returns (Some err, w) \<Rightarrow>
                              Returns (L\<lparr>l_errs := l_errs L @ [err],
                                        droppedRecords := droppedRecords L @ currentRecords L,
                                        l_world := w\<rparr>)
                          | Returns (None, w) \<Rightarrow> Returns (L\<lparr>l_world := w\<rparr>))
                    else Returns L) of
                Panics w \<Rightarrow> Panics (st\<lparr>world := w\<rparr>)
              | Returns L' \<Rightarrow>
                  if length (l_errs L') > 0
                  then Returns ((droppedRecords L', multierr_Combine (l_errs L')),
                                st\<lparr>world := l_world L'\<rparr>)
                  else Returns ((droppedRecords L', None), st\<lparr>world := l_world L'\<rparr>))))"

text \<open>The same for \<open>sendMetrics\<close> over \<open>s.metricBuffer\<close>.\<close>

definition MetricFormat_string :: "('r, 'm, 'v) sender \<Rightarrow> MetricFormatType \<Rightarrow> string" where
  "MetricFormat_string s mf = (case mf of OtherMetricFormat f \<Rightarrow> f | _ \<Rightarrow> MetricFormat_name s mf)"

definition sendMetrics_format :: "('r, 'm, 'v) sender \<Rightarrow> 'm \<Rightarrow> string \<times> error option" where
  "sendMetrics_format s rec =
     (case MetricFormat (config s) of
        PrometheusFormat \<Rightarrow> (prometheus_metric2String s rec, None)
      | Carbon2Format \<Rightarrow> (carbon2Metric2String s rec, None)
      | GraphiteFormat \<Rightarrow> (graphite_metric2String s rec, None)
      | mf \<Rightarrow> ([], Some (Errorf (''unexpected metric format: '' @ MetricFormat_string s mf))))"

definition sendMetrics_iter ::
  "('r, 'm, 'v) sender \<Rightarrow> 'v AttributeMap \<Rightarrow> 'm \<Rightarrow> 'm locals \<Rightarrow> ('m locals, world) outcome" where
  "sendMetrics_iter s flds rec L =
     (case sendMetrics_format s rec of
        (formattedLine, Some err) \<Rightarrow>
          Returns (L\<lparr>droppedRecords := droppedRecords L @ [rec], l_errs := l_errs L @ [err]\<rparr>)
      | (formattedLine, None) \<Rightarrow>
          (case appendAndSend s formattedLine MetricsPipeline (l_body L) flds (l_world L) of
             Panics w' \<Rightarrow> Panics w'
           | Returns ((ar, err), body', w') \<Rightarrow>
               (let L1 = L\<lparr>l_body := body', l_world := w'\<rparr>;
                    L2 = (case err of
                            Some e \<Rightarrow>
                              (let La = L1\<lparr>l_errs := l_errs L1 @ [e]\<rparr>;
                                   Lb = (if sent ar
                                         then La\<lparr>droppedRecords :=
                                                   droppedRecords La @ currentRecords La\<rparr>
                                         else La)
                               in if \<not> appended ar
                                  then Lb\<lparr>droppedRecords := droppedRecords Lb @ [rec]\<rparr>
                                  else Lb)
                          | None \<Rightarrow> L1);
                    L3 = (if sent ar then L2\<lparr>currentRecords := []\<rparr> else L2)
                in Returns (if appended ar then L3\<lparr>currentRecords := currentRecords L3 @ [rec]\<rparr>
                            else L3))))"

fun sendMetrics_loop ::
  "('r, 'm, 'v) sender \<Rightarrow> 'v AttributeMap \<Rightarrow> 'm list \<Rightarrow> 'm locals \<Rightarrow> ('m locals, world) outcome" where
  "sendMetrics_loop s flds [] L = Returns L"
| "sendMetrics_loop s flds (rec # rest) L =
     (case sendMetrics_iter s flds rec L of
        Panics w \<Rightarrow> Panics w
      | Returns L' \<Rightarrow> sendMetrics_loop s flds rest L')"

definition sendOTLPMetrics ::
  "('r, 'm, 'v) sender \<Rightarrow> 'v AttributeMap \<Rightarrow> ('r, 'm) state
     \<Rightarrow> (('m list \<times> error option) \<times> ('r, 'm) state, ('r, 'm) state) outcome" where
  "sendOTLPMetrics s flds st =
     (case MarshalMetrics s (metricBuffer st) flds of
        Inl err \<Rightarrow> Returns ((metricBuffer st, Some err), st)
      | Inr body \<Rightarrow>
          (case send s MetricsPipeline body flds (world st) of
             Panics w \<Rightarrow> Panics (st\<lparr>world := w\<rparr>)
           | Returns (Some err, w) \<Rightarrow> Returns ((metricBuffer st, Some err), st\<lparr>world := w\<rparr>)
           | Returns (None, w) \<Rightarrow> Returns (([], None), st\<lparr>world := w\<rparr>)))"

definition sendMetrics ::
  "('r, 'm, 'v) sender \<Rightarrow> 'v AttributeMap \<Rightarrow> ('r, 'm) state
     \<Rightarrow> (('m list \<times> error option) \<times> ('r, 'm) state, ('r, 'm) state) outcome" where
  "sendMetrics s flds st =
     (if MetricFormat (config s) = OTLPMetricFormat then sendOTLPMetrics s flds st
      else
        (case sendMetrics_loop s flds (metricBuffer st) (init_locals (world st)) of
           Panics w \<Rightarrow> Panics (st\<lparr>world := w\<rparr>)
         | Returns L \<Rightarrow>
             (case (if Builder_Len (l_body L) > 0
                    then (case send s MetricsPipeline (l_body L) flds (l_world L) of
                            Panics w \<Rightarrow> Panics w
                          | Returns (Some err, w) \<Rightarrow>
                              Returns (L\<lparr>l_errs := l_errs L @ [err],
                                        droppedRecords := droppedRecords L @ currentRecords L,
                                        l_world := w\<rparr>)
                          | Returns (None, w) \<Rightarrow> Returns (L\<lparr>l_world := w\<rparr>))
                    else Returns L) of
                Panics w \<Rightarrow> Panics (st\<lparr>world := w\<rparr>)
              | Returns L' \<Rightarrow>
                  if length (l_errs L') > 0
                  then Returns ((droppedRecords L', multierr_Combine (l_errs L')),
                                st\<lparr>world := l_world L'\<rparr>)
                  else Returns ((droppedRecords L', None), st\<lparr>world := l_world L'\<rparr>))))"

section \<open>Pushing records into the buffers\<close>

definition countLogs :: "('r, 'm) state \<Rightarrow> int" where
  "countLogs st = int (length (logBuffer st))"

definition cleanLogsBuffer :: "('r, 'm) state \<Rightarrow> ('r, 'm) state" where
  "cleanLogsBuffer st = st\<lparr>logBuffer := take 0 (logBuffer st)\<rparr>"

definition batchLog ::
  "('r, 'm, 'v) sender \<Rightarrow> 'r \<Rightarrow> 'v AttributeMap \<Rightarrow> ('r, 'm) state
     \<Rightarrow> (('r list \<times> error option) \<times> ('r, 'm) state, ('r, 'm) state) outcome" where
  "batchLog s log metadata st =
     (let st1 = st\<lparr>logBuffer := logBuffer st @ [log]\<rparr> in
      if countLogs st1 \<ge> maxBufferSize
      then (case sendLogs s metadata st1 of
              Panics st2 \<Rightarrow> Panics st2
            | Returns ((dropped, err), st2) \<Rightarrow> Returns ((dropped, err), cleanLogsBuffer st2))
      else Returns (([], None), st1))"

definition countMetrics :: "('r, 'm) state \<Rightarrow> int" where
  "countMetrics st = int (length (metricBuffer st))"

definition cleanMetricBuffer :: "('r, 'm) state \<Rightarrow> ('r, 'm) state" where
  "cleanMetricBuffer st = st\<lparr>metricBuffer := take 0 (metricBuffer st)\<rparr>"

definition batchMetric ::
  "('r, 'm, 'v) sender \<Rightarrow> 'm \<Rightarrow> 'v AttributeMap \<Rightarrow> ('r, 'm) state
     \<Rightarrow> (('m list \<times> error option) \<times> ('r, 'm) state, ('r, 'm) state) outcome" where
  "batchMetric s metric metadata st =
     (let st1 = st\<lparr>metricBuffer := metricBuffer st @ [metric]\<rparr> in
      if countMetrics st1 \<ge> maxBufferSize
      then (case sendMetrics s metadata st1 of
              Panics st2 \<Rightarrow> Panics st2
            | Returns ((dropped, err), st2) \<Rightarrow> Returns ((dropped, err), cleanMetricBuffer st2))
      else Returns (([], None), st1))"

text \<open>
  A caller pushing a sequence of records one after the other, keeping every result, until
  a call panics.
\<close>

fun batchLog_all ::
  "('r, 'm, 'v) sender \<Rightarrow> 'r list \<Rightarrow> 'v AttributeMap \<Rightarrow> ('r, 'm) state
     \<Rightarrow> (('r list \<times> error option) list \<times> ('r, 'm) state, ('r, 'm) state) outcome" where
  "batchLog_all s [] metadata st = Returns ([], st)"
| "batchLog_all s (log # logs) metadata st =
     (case batchLog s log metadata st of
        Panics st1 \<Rightarrow> Panics st1
      | Returns (res, st1) \<Rightarrow>
          (case batchLog_all s logs metadata st1 of
             Panics st2 \<Rightarrow> Panics st2
           | Returns (ress, st2) \<Rightarrow> Returns (res # ress, st2)))"

fun batchMetric_all ::
  "('r, 'm, 'v) sender \<Rightarrow> 'm list \<Rightarrow> 'v AttributeMap \<Rightarrow> ('r, 'm) state
     \<Rightarrow> (('m list \<times> error option) list \<times> ('r, 'm) state, ('r, 'm) state) outcome" where
  "batchMetric_all s [] metadata st = Returns ([], st)"
| "batchMetric_all s (metric # metrics) metadata st =
     (case batchMetric s metric metadata st of
        Panics st1 \<Rightarrow> Panics st1
      | Returns (res, st1) \<Rightarrow>
          (case batchMetric_all s metrics metadata st1 of
             Panics st2 \<Rightarrow> Panics st2
           | Returns (ress, st2) \<Rightarrow> Returns (res # ress, st2)))"

section \<open>The two drains as one\<close>

text \<open>
  After the formatting \<open>switch\<close>, the bodies of the two loops and the two trailing flushes
  are the same text up to the pipeline constant. The properties of the drains are proved
  once, on this common form, and carried over to \<open>sendLogs\<close> and \<open>sendMetrics\<close>.
\<close>

definition lines_account ::
  "'a \<Rightarrow> appendResponse \<Rightarrow> error option \<Rightarrow> 'a locals \<Rightarrow> 'a locals" where
  "lines_account rec ar err L =
     L\<lparr>l_errs := l_errs L @ (case err of Some e \<Rightarrow> [e] | None \<Rightarrow> []),
       droppedRecords :=
         droppedRecords L
           @ (if err \<noteq> None \<and> sent ar then currentRecords L else [])
           @ (if err \<noteq> None \<and> \<not> appended ar then [rec] else []),
       currentRecords :=
         (if sent ar then [] else currentRecords L) @ (if appended ar then [rec] else [])\<rparr>"

definition lines_iter ::
  "('r, 'm, 'v) sender \<Rightarrow> PipelineType \<Rightarrow> 'v AttributeMap \<Rightarrow> 'a \<Rightarrow> string \<times> error option
     \<Rightarrow> 'a locals \<Rightarrow> ('a locals, world) outcome" where
  "lines_iter s pipeline flds rec formatted L =
     (case formatted of
        (formattedLine, Some err) \<Rightarrow>
          Returns (L\<lparr>droppedRecords := droppedRecords L @ [rec], l_errs := l_errs L @ [err]\<rparr>)
      | (formattedLine, None) \<Rightarrow>
          (case appendAndSend s formattedLine pipeline (l_body L) flds (l_world L) of
             Panics w' \<Rightarrow> Panics w'
           | Returns ((ar, err), body', w') \<Rightarrow>
               Returns (lines_account rec ar err (L\<lparr>l_body := body', l_world := w'\<rparr>))))"

fun lines_loop ::
  "('r, 'm, 'v) sender \<Rightarrow> ('a \<Rightarrow> string \<times> error option) \<Rightarrow> PipelineType \<Rightarrow> 'v AttributeMap
     \<Rightarrow> 'a list \<Rightarrow> 'a locals \<Rightarrow> ('a locals, world) outcome" where
  "lines_loop s format pipeline flds [] L = Returns L"
| "lines_loop s format pipeline flds (rec # rest) L =
     (case lines_iter s pipeline flds rec (format rec) L of
        Panics w \<Rightarrow> Panics w
      | Returns L' \<Rightarrow> lines_loop s format pipeline flds rest L')"

definition lines_flush ::
  "('r, 'm, 'v) sender \<Rightarrow> PipelineType \<Rightarrow> 'v AttributeMap \<Rightarrow> 'a locals
     \<Rightarrow> ('a locals, world) outcome" where
  "lines_flush s pipeline flds L =
     (if l_body L \<noteq> []
      then (case send s pipeline (l_body L) flds (l_world L) of
              Panics w \<Rightarrow> Panics w
            | Returns (Some err, w) \<Rightarrow>
                Returns (L\<lparr>l_errs := l_errs L @ [err],
                          droppedRecords := droppedRecords L @ currentRecords L,
                          l_world := w\<rparr>)
            | Returns (None, w) \<Rightarrow> Returns (L\<lparr>l_world := w\<rparr>))
      else Returns L)"

definition lines_drain ::
  "('r, 'm, 'v) sender \<Rightarrow> ('a \<Rightarrow> string \<times> error option) \<Rightarrow> PipelineType \<Rightarrow> 'v AttributeMap
     \<Rightarrow> 'a list \<Rightarrow> world \<Rightarrow> ('a locals, world) outcome" where
  "lines_drain s format pipeline flds buffer w =
     (case lines_loop s format pipeline flds buffer (init_locals w) of
        Panics w' \<Rightarrow> Panics w'
      | Returns L \<Rightarrow> lines_flush s pipeline flds L)"

text \<open>
  The body holds the lines of the accumulated records, joined by newlines, and none of
  these lines is empty.
\<close>

definition body_of :: "('a \<Rightarrow> string \<times> error option) \<Rightarrow> 'a locals \<Rightarrow> bool" where
  "body_of format L \<longleftrightarrow>
     l_body L = Join (map (\<lambda>r. fst (format r)) (currentRecords L)) newline
     \<and> (\<forall>r \<in> set (currentRecords L). fst (format r) \<noteq> [])"

section \<open>The response classification in the words of the specification\<close>

text \<open>
  The diagnostic fields of a warning: the status, then \<open>id\<close>, \<open>code\<close> and \<open>message\<close> of the
  decoded body, each left out when empty.
\<close>

definition spec_warning_fields :: "string \<Rightarrow> ReceiverResponseCore \<Rightarrow> (string \<times> zap_value) list" where
  "spec_warning_fields status r =
     (''status'', zap_String status)
       # map (\<lambda>kv. (fst kv, zap_String (snd kv)))
           (filter (\<lambda>kv. snd kv \<noteq> [])
              [(''id'', ID r), (''code'', Code r), (''message'', Message r)])"


section \<open>A concrete sender\<close>

text \<open>
  A sender for evaluating the definitions: text logs, Prometheus metrics, no compression,
  a body limit \<open>n\<close>, and a receiver that answers the \<open>i\<close>-th request (counted from 0) with
  \<open>answer i\<close>. Three answers: accepted, rejected, and accepted with a body of unknown
  length, for which \<open>net/http\<close> sets \<open>ContentLength\<close> to \<open>-1\<close>.
\<close>

definition ok_response :: response where
  "ok_response = \<lparr>StatusCode = 200, Status = ''200 OK'', ContentLength = 0, Body = []\<rparr>"

definition failed_response :: response where
  "failed_response =
     \<lparr>StatusCode = 500, Status = ''500 Internal Server Error'', ContentLength = 0, Body = []\<rparr>"

definition chunked_response :: response where
  "chunked_response =
     \<lparr>StatusCode = 200, Status = ''200 OK'', ContentLength = - 1,
      Body = ''{}''\<rparr>"

definition fail_at :: "nat \<Rightarrow> nat \<Rightarrow> response" where
  "fail_at k i = (if i = k then failed_response else ok_response)"

definition demo_config :: "int \<Rightarrow> Config" where
  "demo_config n =
     \<lparr>Endpoint = [], Client = ''otelcol'', CompressEncoding = NoCompression,
      LogFormat = TextFormat, MetricFormat = PrometheusFormat, TraceFormat = OTLPTraceFormat,
      MaxRequestBodySize = n\<rparr>"

definition demo_sender :: "int \<Rightarrow> (nat \<Rightarrow> response) \<Rightarrow> (string, string, string) sender" where
  "demo_sender n answer =
     \<lparr>config = demo_config n,
      dataUrlMetrics = ''http://receiver/metrics'',
      dataUrlLogs = ''http://receiver/logs'',
      dataUrlTraces = ''http://receiver/traces'',
      AsString = (\<lambda>v. v),
      compress = Inr,
      NewRequest_err = (\<lambda>url. None),
      client_Do = (\<lambda>made req. Inr (answer (length made))),
      Decode_core = (\<lambda>b. (b, None)),
      Decode_error = (\<lambda>b. (b, None)),
      sources_host = None,
      sources_name = None,
      sources_category = None,
      logToText = (\<lambda>r. r),
      logToJSON = (\<lambda>r. Inr r),
      prometheus_metric2String = (\<lambda>m. m),
      carbon2Metric2String = (\<lambda>m. m),
      graphite_metric2String = (\<lambda>m. m),
      MarshalLogs = (\<lambda>rs flds. Inr (concat rs)),
      MarshalMetrics = (\<lambda>ms flds. Inr (concat ms)),
      MetricFormat_name = (\<lambda>mf. [])\<rparr>"

definition empty_world :: world where
  "empty_world = \<lparr>requests = [], logged = []\<rparr>"

definition demo_state :: "string list \<Rightarrow> string list \<Rightarrow> (string, string) state" where
  "demo_state logs metrics = \<lparr>logBuffer = logs, metricBuffer = metrics, world = empty_world\<rparr>"

text \<open>The same sender, configured for OTLP logs and metrics.\<close>

definition otlp_sender :: "(string, string, string) sender" where
  "otlp_sender =
     (demo_sender 5 (fail_at 1))
       \<lparr>config := (demo_config 5)\<lparr>LogFormat := OTLPLogFormat, MetricFormat := OTLPMetricFormat\<rparr>\<rparr>"

text \<open>The same sender with a JSON decoder that always succeeds with \<open>r\<close>.\<close>

definition decoding_sender :: "ReceiverErrorResponse \<Rightarrow> (string, string, string) sender" where
  "decoding_sender r =
     (demo_sender 3 (fail_at 1))
       \<lparr>Decode_core := (\<lambda>b. (b, Some (ReceiverResponseCore.truncate r))),
        Decode_error := (\<lambda>b. (b, Some r))\<rparr>"

section \<open>Theorems\<close>

subsection \<open>The rendering of fields\<close>

lemma string_range_filter:
  "string_range asString orig acc =
     acc @ map (\<lambda>kv. sanitizeField (fst kv) @ ''='' @ sanitizeField (asString (snd kv)))
             (filter (\<lambda>kv. fst kv \<notin> reserved_keys \<and> asString (snd kv) \<noteq> []) orig)"
proof (induction orig arbitrary: acc)
  case Nil
  show ?case by simp
next
  case (Cons kv rest)
  obtain k v where kv: "kv = (k, v)" by (cases kv)
  show ?case
    unfolding string_range.simps Cons.IH
    by (simp add: kv string_visit_def reserved_keys_def attributeKeySourceCategory_def
        attributeKeySourceHost_def attributeKeySourceName_def Let_def)
qed

text \<open>A sanitized field holds no comma, no equals sign and no newline.\<close>

lemma sanitizeField_clean:
  "CHR '','' \<notin> set (sanitizeField fld) \<and> CHR ''='' \<notin> set (sanitizeField fld)
   \<and> CHR 0x0A \<notin> set (sanitizeField fld)"
  by (auto simp: sanitizeField_def replacer_def)

text \<open>The loop of \<open>fields.string\<close> computes the rendering the specification describes.\<close>

lemma fields_string_spec: "fields_string asString orig = spec_fields_string asString orig"
  by (simp add: fields_string_def spec_fields_string_def string_range_filter)

text \<open>Sorting forgets the order of the entries.\<close>

lemma sort_mset_cong:
  fixes xs ys :: "string list"
  assumes "mset xs = mset ys"
  shows "sort xs = sort ys"
  by (rule properties_for_sort) (simp_all add: assms)

lemma fields_string_order_free:
  assumes "mset orig = mset orig'"
  shows "fields_string asString orig = fields_string asString orig'"
proof -
  let ?f = "\<lambda>kv. sanitizeField (fst kv) @ ''='' @ sanitizeField (asString (snd kv))"
  let ?P = "\<lambda>kv. fst kv \<notin> reserved_keys \<and> asString (snd kv) \<noteq> []"
  have "mset (map ?f (filter ?P orig)) = mset (map ?f (filter ?P orig'))"
    by (simp add: assms)
  then have "sort (map ?f (filter ?P orig)) = sort (map ?f (filter ?P orig'))"
    by (rule sort_mset_cong)
  then show ?thesis
    by (simp add: fields_string_spec spec_fields_string_def)
qed

text \<open>
  C7. For every attribute map, \<open>fields.string\<close> leaves out the three reserved source keys
  and every entry whose value renders empty, sanitizes keys and values (no comma, equals
  sign or newline is left in them), and joins the remaining \<open>key=value\<close> strings, sorted
  ascending, with a comma and a space; the result does not depend on the order of the
  entries. For the attributes \<open>b = 2\<close>, \<open>a = 1\<close> and an empty \<open>c\<close> it is exactly \<open>a=1, b=2\<close>.
\<close>

theorem fields_string_rendering:
  "fields_string asString orig = spec_fields_string asString orig
   \<and> fields_string (\<lambda>v. v) [(''b'', ''2''), (''a'', ''1''), (''c'', [])] = ''a=1, b=2''
   \<and> (mset orig = mset orig' \<longrightarrow> fields_string asString orig = fields_string asString orig')
   \<and> CHR '','' \<notin> set (sanitizeField fld) \<and> CHR ''='' \<notin> set (sanitizeField fld)
   \<and> CHR 0x0A \<notin> set (sanitizeField fld)"
proof (intro conjI impI)
  show "fields_string asString orig = spec_fields_string asString orig"
    by (rule fields_string_spec)
  show "fields_string (\<lambda>v. v) [(''b'', ''2''), (''a'', ''1''), (''c'', [])] = ''a=1, b=2''"
    by (simp add: fields_string_def string_visit_def sanitizeField_def replacer_def
        attributeKeySourceCategory_def attributeKeySourceHost_def attributeKeySourceName_def)
  show "fields_string asString orig = fields_string asString orig'" if "mset orig = mset orig'"
    using that by (rule fields_string_order_free)
qed (simp_all add: sanitizeField_clean)

theorem fields_string_rendering_witness:
  "fields_string (\<lambda>v. v)
     [(''_sourceHost'', ''h''), (''c'', []), (''x,y'', ''1=2''), (''_sourceName'', ''n''),
      (''b'', ''2''), (''_sourceCategory'', ''k''), (''a'', ''1'')]
   = ''a=1, b=2, x_y=1:2''
   \<and> fields_string (\<lambda>v. v) [(''a'', ''1''), (''b'', ''2'')]
     = fields_string (\<lambda>v. v) [(''b'', ''2''), (''a'', ''1'')]"
proof -
  have m: "mset [(''a'', ''1''), (''b'', ''2'')] = mset [(''b'', ''2''), (''a'', ''1'')]"
    by (simp add: add_mset_commute)
  note t = fields_string_rendering
    [where asString = "\<lambda>v. v" and orig' = "[(''b'', ''2''), (''a'', ''1'')]"]
  have a: "fields_string (\<lambda>v. v)
     [(''_sourceHost'', ''h''), (''c'', []), (''x,y'', ''1=2''), (''_sourceName'', ''n''),
      (''b'', ''2''), (''_sourceCategory'', ''k''), (''a'', ''1'')]
   = ''a=1, b=2, x_y=1:2''"
    using t [where orig = "[(''_sourceHost'', ''h''), (''c'', []), (''x,y'', ''1=2''),
        (''_sourceName'', ''n''), (''b'', ''2''), (''_sourceCategory'', ''k''), (''a'', ''1'')]"]
    by (simp add: spec_fields_string_def reserved_keys_def sanitizeField_def replacer_def)
  have b: "fields_string (\<lambda>v. v) [(''a'', ''1''), (''b'', ''2'')]
     = fields_string (\<lambda>v. v) [(''b'', ''2''), (''a'', ''1'')]"
    using t [where orig = "[(''a'', ''1''), (''b'', ''2'')]"] m by blast
  from a b show ?thesis by simp
qed



subsection \<open>One append, and the drains in their common form\<close>

text \<open>
  What one \<open>appendAndSend\<close> does: it flushes when the body is not empty and body and line
  together reach the limit, and it always appends the line.
\<close>

lemma appendAndSend_eq:
  "appendAndSend s line pipeline body flds w =
     (if body \<noteq> [] \<and> MaxRequestBodySize (config s) \<le> int (length body) + int (length line)
      then (case send s pipeline body flds w of
              Panics w' \<Rightarrow> Panics w'
            | Returns (e, w') \<Rightarrow> Returns ((\<lparr>sent = True, appended = True\<rparr>, e), line, w'))
      else Returns ((\<lparr>sent = False, appended = True\<rparr>, None),
                    (if body = [] then line else body @ newline @ line), w))"
  by (auto simp: appendAndSend_def Builder_Len_def Builder_Reset_def Builder_WriteString_def
      newAppendResponse_def Let_def split: prod.splits option.splits outcome.splits)

text \<open>The loops and drains of logs and metrics are instances of the common form.\<close>

lemma sendLogs_iter_lines:
  "sendLogs_iter s flds rec L = lines_iter s LogsPipeline flds rec (sendLogs_format s rec) L"
  by (simp add: sendLogs_iter_def lines_iter_def lines_account_def Let_def
      split: prod.splits option.splits outcome.splits)

lemma sendMetrics_iter_lines:
  "sendMetrics_iter s flds rec L = lines_iter s MetricsPipeline flds rec (sendMetrics_format s rec) L"
  by (simp add: sendMetrics_iter_def lines_iter_def lines_account_def Let_def
      split: prod.splits option.splits outcome.splits)

lemma sendLogs_loop_lines:
  "sendLogs_loop s flds buffer L = lines_loop s (sendLogs_format s) LogsPipeline flds buffer L"
  by (induction buffer arbitrary: L) (simp_all add: sendLogs_iter_lines split: outcome.splits)

lemma sendMetrics_loop_lines:
  "sendMetrics_loop s flds buffer L = lines_loop s (sendMetrics_format s) MetricsPipeline flds buffer L"
  by (induction buffer arbitrary: L) (simp_all add: sendMetrics_iter_lines split: outcome.splits)

lemma sendLogs_lines:
  "LogFormat (config s) \<noteq> OTLPLogFormat \<Longrightarrow>
   sendLogs s flds st =
     (case lines_drain s (sendLogs_format s) LogsPipeline flds (logBuffer st) (world st) of
        Panics w \<Rightarrow> Panics (st\<lparr>world := w\<rparr>)
      | Returns L \<Rightarrow>
          Returns ((droppedRecords L, multierr_Combine (l_errs L)), st\<lparr>world := l_world L\<rparr>))"
  by (simp add: sendLogs_def lines_drain_def lines_flush_def sendLogs_loop_lines Let_def
      Builder_Len_def split: prod.splits option.splits outcome.splits)

lemma sendMetrics_lines:
  "MetricFormat (config s) \<noteq> OTLPMetricFormat \<Longrightarrow>
   sendMetrics s flds st =
     (case lines_drain s (sendMetrics_format s) MetricsPipeline flds (metricBuffer st) (world st) of
        Panics w \<Rightarrow> Panics (st\<lparr>world := w\<rparr>)
      | Returns L \<Rightarrow>
          Returns ((droppedRecords L, multierr_Combine (l_errs L)), st\<lparr>world := l_world L\<rparr>))"
  by (simp add: sendMetrics_def lines_drain_def lines_flush_def sendMetrics_loop_lines Let_def
      Builder_Len_def split: prod.splits option.splits outcome.splits)

subsection \<open>The concrete sender\<close>

text \<open>
  What \<open>send\<close> does with the concrete sender, for the two buffered pipelines, and how the
  three answers are interpreted.
\<close>

lemma demo_send:
  "pipeline = LogsPipeline \<or> pipeline = MetricsPipeline \<Longrightarrow>
   send (demo_sender n answer) pipeline body [] w =
     (let hdr = [(''X-Sumo-Client'', ''otelcol''),
                 (''Content-Type'',
                  if pipeline = LogsPipeline then ''application/x-www-form-urlencoded''
                  else ''application/vnd.sumologic.prometheus'')];
          req = \<lparr>URL = (if pipeline = LogsPipeline then ''http://receiver/logs''
                          else ''http://receiver/metrics''),
                 Data = body, Header = hdr\<rparr>;
          w2 = w\<lparr>logged := logged w @ [LogEntry DebugLevel ''Sending data''
                    [(''pipeline'', zap_Pipeline pipeline), (''headers'', zap_Headers hdr)]],
                 requests := requests w @ [req]\<rparr>
      in handleReceiverResponse (demo_sender n answer) (answer (length (requests w))) w2)"
  by (auto simp: send_def demo_sender_def demo_config_def createRequest_def addRequestHeaders_def
      addCompressHeader_def addSourcesHeaders_def addLogsHeaders_def addMetricsHeaders_def
      fields_string_def contentTypePrometheus_def
      Header_Add_def headerClient_def headerContentType_def contentTypeLogs_def
      logger_Debug_def Let_def)

lemma demo_answers:
  "handleReceiverResponse s ok_response w = Returns (None, w)"
  "handleReceiverResponse s failed_response w =
     Returns (Some (Errorf ''failed sending data: status: 500 Internal Server Error''), w)"
  "handleReceiverResponse s chunked_response w = Panics w"
  by (simp_all add: handleReceiverResponse_def ok_response_def failed_response_def
      chunked_response_def zeroReceiverErrorResponse_def NewBuffer_make_def)

subsection \<open>The batch body builder\<close>

text \<open>
  C1, as amended. For every call of \<open>appendAndSend\<close> that returns, with a line, a body and
  the configured \<open>MaxRequestBodySize\<close>: the accumulated body is handed to \<open>send\<close> as it is
  and reset to empty, with \<open>sent = true\<close>, if and only if the body is non-empty and the
  length of the body plus the length of the line, the separator not counted, meets or
  exceeds the maximum. Otherwise nothing is transmitted during the call: \<open>sent = false\<close>,
  no error, and the world is left as it was. Either way the line ends up in the body,
  after one newline when the body is not empty. The call returns whenever it does not
  send, and whenever its \<open>send\<close> returns.
\<close>

theorem appendAndSend_flush_rule:
  "(\<forall>ar err body' w'.
      appendAndSend s line pipeline body flds w = Returns ((ar, err), body', w') \<longrightarrow>
      (sent ar \<longleftrightarrow>
         body \<noteq> [] \<and> MaxRequestBodySize (config s) \<le> int (length body) + int (length line))
      \<and> (sent ar \<longrightarrow> send s pipeline body flds w = Returns (err, w') \<and> body' = line)
      \<and> (\<not> sent ar \<longrightarrow>
            w' = w \<and> err = None \<and> body' = (if body = [] then line else body @ newline @ line)))
   \<and> (\<not> (body \<noteq> [] \<and> MaxRequestBodySize (config s) \<le> int (length body) + int (length line)) \<longrightarrow>
        appendAndSend s line pipeline body flds w =
          Returns ((\<lparr>sent = False, appended = True\<rparr>, None),
                   (if body = [] then line else body @ newline @ line), w))
   \<and> (\<forall>err w'.
        body \<noteq> [] \<and> MaxRequestBodySize (config s) \<le> int (length body) + int (length line) \<longrightarrow>
        send s pipeline body flds w = Returns (err, w') \<longrightarrow>
        appendAndSend s line pipeline body flds w =
          Returns ((\<lparr>sent = True, appended = True\<rparr>, err), line, w'))"
  by (auto simp: appendAndSend_eq split: outcome.splits prod.splits)

theorem appendAndSend_flush_rule_witness:
  "appendAndSend (demo_sender 3 (fail_at 1)) ''cd'' LogsPipeline ''ab'' [] empty_world =
     Returns ((\<lparr>sent = True, appended = True\<rparr>, None), ''cd'',
      \<lparr>requests = [\<lparr>URL = ''http://receiver/logs'', Data = ''ab'',
                     Header = [(''X-Sumo-Client'', ''otelcol''),
                               (''Content-Type'', ''application/x-www-form-urlencoded'')]\<rparr>],
       logged = [LogEntry DebugLevel ''Sending data''
                   [(''pipeline'', zap_Pipeline LogsPipeline),
                    (''headers'', zap_Headers [(''X-Sumo-Client'', ''otelcol''),
                               (''Content-Type'', ''application/x-www-form-urlencoded'')])]]\<rparr>)
   \<and> appendAndSend (demo_sender 5 (fail_at 1)) ''cd'' LogsPipeline ''ab'' [] empty_world =
     Returns ((\<lparr>sent = False, appended = True\<rparr>, None), ''ab'' @ newline @ ''cd'', empty_world)"
proof -
  let ?w = "\<lparr>requests = [\<lparr>URL = ''http://receiver/logs'', Data = ''ab'',
                     Header = [(''X-Sumo-Client'', ''otelcol''),
                               (''Content-Type'', ''application/x-www-form-urlencoded'')]\<rparr>],
       logged = [LogEntry DebugLevel ''Sending data''
                   [(''pipeline'', zap_Pipeline LogsPipeline),
                    (''headers'', zap_Headers [(''X-Sumo-Client'', ''otelcol''),
                               (''Content-Type'', ''application/x-www-form-urlencoded'')])]]\<rparr>"
  have limit3: "''ab'' \<noteq> [] \<and> MaxRequestBodySize (config (demo_sender 3 (fail_at 1)))
                  \<le> int (length ''ab'') + int (length ''cd'')"
    by (simp add: demo_sender_def demo_config_def)
  have limit5: "\<not> (''ab'' \<noteq> [] \<and> MaxRequestBodySize (config (demo_sender 5 (fail_at 1)))
                  \<le> int (length ''ab'') + int (length ''cd''))"
    by (simp add: demo_sender_def demo_config_def)
  have sends: "send (demo_sender 3 (fail_at 1)) LogsPipeline ''ab'' [] empty_world = Returns (None, ?w)"
    by (simp add: demo_send demo_answers fail_at_def empty_world_def Let_def)
  note t3 = appendAndSend_flush_rule
    [of "demo_sender 3 (fail_at 1)" "''cd''" LogsPipeline "''ab''" "[]" empty_world]
  note t5 = appendAndSend_flush_rule
    [of "demo_sender 5 (fail_at 1)" "''cd''" LogsPipeline "''ab''" "[]" empty_world]
  from t3 limit3 sends
  have a: "appendAndSend (demo_sender 3 (fail_at 1)) ''cd'' LogsPipeline ''ab'' [] empty_world =
     Returns ((\<lparr>sent = True, appended = True\<rparr>, None), ''cd'', ?w)"
    by blast
  from t5 limit5
  have "appendAndSend (demo_sender 5 (fail_at 1)) ''cd'' LogsPipeline ''ab'' [] empty_world =
     Returns ((\<lparr>sent = False, appended = True\<rparr>, None),
              (if ''ab'' = [] then ''cd'' else ''ab'' @ newline @ ''cd''), empty_world)"
    by blast
  with a show ?thesis by simp
qed

text \<open>
  The claim as first stated counts the separator: with the body \<open>a\<close>, the line \<open>b\<close> and a
  maximum of 3 the three bytes meet the maximum, but nothing is sent.
\<close>

theorem appendAndSend_separator_counterexample:
  "appendAndSend (demo_sender 3 (fail_at 1)) ''b'' LogsPipeline ''a'' [] empty_world =
     Returns ((\<lparr>sent = False, appended = True\<rparr>, None), ''a'' @ newline @ ''b'', empty_world)
   \<and> ''a'' \<noteq> []
   \<and> MaxRequestBodySize (config (demo_sender 3 (fail_at 1)))
       \<le> int (length ''a'') + int (length ''b'') + 1"
  by (simp add: appendAndSend_eq demo_sender_def demo_config_def)

text \<open>A drain of one record whose line is not empty is one trailing flush of that line.\<close>

lemma sendLogs_single:
  assumes "LogFormat (config s) \<noteq> OTLPLogFormat" and "logBuffer st = [rec]"
    and "sendLogs_format s rec = (line, None)" and "line \<noteq> []"
  shows "sendLogs s flds st =
     (case send s LogsPipeline line flds (world st) of
        Panics w' \<Rightarrow> Panics (st\<lparr>world := w'\<rparr>)
      | Returns (Some err, w') \<Rightarrow> Returns (([rec], Some err), st\<lparr>world := w'\<rparr>)
      | Returns (None, w') \<Rightarrow> Returns (([], None), st\<lparr>world := w'\<rparr>))"
  using assms
  by (simp add: sendLogs_lines lines_drain_def lines_flush_def lines_iter_def lines_account_def
      init_locals_def appendAndSend_eq Let_def split: prod.splits option.splits outcome.splits)

text \<open>The concrete sender formats a text log as itself.\<close>

lemma demo_format: "sendLogs_format (demo_sender n answer) r = (r, None)"
  by (simp add: sendLogs_format_def demo_sender_def demo_config_def)

lemma demo_limit: "MaxRequestBodySize (config (demo_sender n answer)) = n"
  by (simp add: demo_sender_def demo_config_def)

lemma demo_text: "LogFormat (config (demo_sender n answer)) \<noteq> OTLPLogFormat"
  by (simp add: demo_sender_def demo_config_def)

text \<open>
  C2. A line whose own length meets or exceeds \<open>MaxRequestBodySize\<close> is appended to an
  empty body and never rejected: the call returns \<open>appended = true\<close>, \<open>sent = false\<close> and no
  error, and leaves the world untouched. The body is then that line alone, and (the line
  not being empty) a later flush transmits it: the next append, whatever its line, hands
  exactly this body to \<open>send\<close> before it writes, and a drain that ends here hands it to
  \<open>send\<close> in its trailing flush.
\<close>

theorem oversized_line_is_appended:
  fixes s :: "('r, 'm, 'v) sender"
  assumes "MaxRequestBodySize (config s) \<le> int (length line)"
  shows "appendAndSend s line pipeline [] flds w =
           Returns ((\<lparr>sent = False, appended = True\<rparr>, None), line, w)
       \<and> (line \<noteq> [] \<longrightarrow>
            (\<forall>next w1. appendAndSend s next pipeline line flds w1 =
               (case send s pipeline line flds w1 of
                  Panics w2 \<Rightarrow> Panics w2
                | Returns (err, w2) \<Rightarrow>
                    Returns ((\<lparr>sent = True, appended = True\<rparr>, err), next, w2))))
       \<and> (line \<noteq> [] \<longrightarrow>
            (\<forall>st rec. LogFormat (config s) \<noteq> OTLPLogFormat \<longrightarrow> logBuffer st = [rec] \<longrightarrow>
               sendLogs_format s rec = (line, None) \<longrightarrow>
               sendLogs s flds st =
                 (case send s LogsPipeline line flds (world st) of
                    Panics w' \<Rightarrow> Panics (st\<lparr>world := w'\<rparr>)
                  | Returns (Some err, w') \<Rightarrow> Returns (([rec], Some err), st\<lparr>world := w'\<rparr>)
                  | Returns (None, w') \<Rightarrow> Returns (([], None), st\<lparr>world := w'\<rparr>))))"
proof (intro conjI impI allI)
  show "appendAndSend s line pipeline [] flds w =
          Returns ((\<lparr>sent = False, appended = True\<rparr>, None), line, w)"
    by (simp add: appendAndSend_eq)
next
  fix "next" w1
  assume "line \<noteq> []"
  with assms show "appendAndSend s next pipeline line flds w1 =
      (case send s pipeline line flds w1 of
         Panics w2 \<Rightarrow> Panics w2
       | Returns (err, w2) \<Rightarrow> Returns ((\<lparr>sent = True, appended = True\<rparr>, err), next, w2))"
    by (simp add: appendAndSend_eq)
next
  fix st :: "('r, 'm) state" and rec
  assume "line \<noteq> []" "LogFormat (config s) \<noteq> OTLPLogFormat" "logBuffer st = [rec]"
    "sendLogs_format s rec = (line, None)"
  then show "sendLogs s flds st =
      (case send s LogsPipeline line flds (world st) of
         Panics w' \<Rightarrow> Panics (st\<lparr>world := w'\<rparr>)
       | Returns (Some err, w') \<Rightarrow> Returns (([rec], Some err), st\<lparr>world := w'\<rparr>)
       | Returns (None, w') \<Rightarrow> Returns (([], None), st\<lparr>world := w'\<rparr>))"
    by (rule sendLogs_single [rotated 3])
qed

theorem oversized_line_is_appended_witness:
  "appendAndSend (demo_sender 3 (fail_at 1)) ''abcdef'' LogsPipeline [] [] empty_world =
     Returns ((\<lparr>sent = False, appended = True\<rparr>, None), ''abcdef'', empty_world)
   \<and> (\<exists>w. appendAndSend (demo_sender 3 (fail_at 1)) ''x'' LogsPipeline ''abcdef'' [] empty_world =
            Returns ((\<lparr>sent = True, appended = True\<rparr>, None), ''x'', w)
          \<and> map Data (requests w) = [''abcdef''])
   \<and> (\<exists>st. sendLogs (demo_sender 3 (fail_at 1)) [] (demo_state [''abcdef''] []) =
            Returns (([], None), st)
          \<and> map Data (requests (world st)) = [''abcdef''])"
proof -
  let ?s = "demo_sender 3 (fail_at 1)"
  have h: "MaxRequestBodySize (config ?s) \<le> int (length ''abcdef'')"
    by (simp add: demo_limit)
  note t = oversized_line_is_appended [OF h, of LogsPipeline "[]" empty_world]
  have a: "appendAndSend ?s ''abcdef'' LogsPipeline [] [] empty_world =
     Returns ((\<lparr>sent = False, appended = True\<rparr>, None), ''abcdef'', empty_world)"
    using t by simp
  have b: "appendAndSend ?s ''x'' LogsPipeline ''abcdef'' [] empty_world =
      (case send ?s LogsPipeline ''abcdef'' [] empty_world of
         Panics w2 \<Rightarrow> Panics w2
       | Returns (err, w2) \<Rightarrow> Returns ((\<lparr>sent = True, appended = True\<rparr>, err), ''x'', w2))"
    using t by simp
  have c: "sendLogs ?s [] (demo_state [''abcdef''] []) =
      (case send ?s LogsPipeline ''abcdef'' [] (world (demo_state [''abcdef''] [])) of
         Panics w' \<Rightarrow> Panics ((demo_state [''abcdef''] [])\<lparr>world := w'\<rparr>)
       | Returns (Some err, w') \<Rightarrow>
           Returns (([''abcdef''], Some err), (demo_state [''abcdef''] [])\<lparr>world := w'\<rparr>)
       | Returns (None, w') \<Rightarrow> Returns (([], None), (demo_state [''abcdef''] [])\<lparr>world := w'\<rparr>))"
  proof -
    have buf: "logBuffer (demo_state [''abcdef''] []) = [''abcdef'']"
      by (simp add: demo_state_def)
    have ne: "''abcdef'' \<noteq> []" by simp
    from t ne demo_text [of 3 "fail_at 1"] buf demo_format [of 3 "fail_at 1" "''abcdef''"]
    show ?thesis by blast
  qed
  show ?thesis
    unfolding b c using a
    by (simp add: demo_send demo_answers fail_at_def demo_state_def empty_world_def Let_def)
qed

text \<open>
  C3, as amended. After every completed \<open>appendAndSend\<close> the length of the body is at most
  the larger of \<open>MaxRequestBodySize\<close> and the length of the line just appended. So the body
  at rest never exceeds the maximum when the line itself does not, whatever the body was
  before; and a body at rest that exceeds the maximum is one line that is itself too long.
\<close>

theorem body_length_bound:
  "\<forall>r body' w'.
     appendAndSend s line pipeline body flds w = Returns (r, body', w') \<longrightarrow>
     int (length body') \<le> max (MaxRequestBodySize (config s)) (int (length line))
     \<and> (int (length line) \<le> MaxRequestBodySize (config s) \<longrightarrow>
          int (length body') \<le> MaxRequestBodySize (config s))
     \<and> (MaxRequestBodySize (config s) < int (length body') \<longrightarrow> body' = line)"
  by (auto simp: appendAndSend_eq newline_def split: outcome.splits prod.splits if_splits)

theorem body_length_bound_witness:
  "appendAndSend (demo_sender 5 (fail_at 1)) ''cd'' LogsPipeline ''ab'' [] empty_world =
     Returns ((\<lparr>sent = False, appended = True\<rparr>, None), ''ab'' @ newline @ ''cd'', empty_world)
   \<and> int (length (''ab'' @ newline @ ''cd'')) \<le> MaxRequestBodySize (config (demo_sender 5 (fail_at 1)))"
proof -
  have a: "appendAndSend (demo_sender 5 (fail_at 1)) ''cd'' LogsPipeline ''ab'' [] empty_world =
     Returns ((\<lparr>sent = False, appended = True\<rparr>, None), ''ab'' @ newline @ ''cd'', empty_world)"
    by (simp add: appendAndSend_eq demo_limit)
  have h: "int (length ''cd'') \<le> MaxRequestBodySize (config (demo_sender 5 (fail_at 1)))"
    by (simp add: demo_limit)
  from body_length_bound
    [of "demo_sender 5 (fail_at 1)" "''cd''" LogsPipeline "''ab''" "[]" empty_world] a h
  have "int (length (''ab'' @ newline @ ''cd'')) \<le> MaxRequestBodySize (config (demo_sender 5 (fail_at 1)))"
    by blast
  with a show ?thesis by simp
qed

text \<open>
  The invariant as first stated has no exception: a line of six bytes appended to the
  empty body under a maximum of 3 leaves a body of six bytes.
\<close>

theorem body_exceeds_maximum_counterexample:
  "appendAndSend (demo_sender 3 (fail_at 1)) ''abcdef'' LogsPipeline [] [] empty_world =
     Returns ((\<lparr>sent = False, appended = True\<rparr>, None), ''abcdef'', empty_world)
   \<and> MaxRequestBodySize (config (demo_sender 3 (fail_at 1))) < int (length ''abcdef'')"
  by (simp add: appendAndSend_eq demo_limit)

text \<open>A call that returns has appended the line, and reports an error only when it sent.\<close>

lemma appendAndSend_appended:
  assumes "appendAndSend s line pipeline body flds w = Returns ((ar, err), body', w')"
  shows "appended ar" and "\<not> sent ar \<Longrightarrow> err = None"
  using assms by (auto simp: appendAndSend_eq split: outcome.splits prod.splits if_splits)

text \<open>The iteration after an append that returned.\<close>

lemma lines_iter_returns:
  assumes "fm = (line, None)"
    and "appendAndSend s line p (l_body L) flds (l_world L) = Returns ((ar, err), b', w')"
  shows "\<exists>L'. lines_iter s p flds rec fm L = Returns L'
           \<and> currentRecords L' = (if sent ar then [] else currentRecords L) @ [rec]
           \<and> droppedRecords L' =
               droppedRecords L @ (if sent ar \<and> err \<noteq> None then currentRecords L else [])"
  using assms appendAndSend_appended [OF assms(2)]
  by (auto simp: lines_iter_def lines_account_def)

text \<open>
  C10. \<open>WriteString\<close> on the body never returns an error, so every \<open>appendAndSend\<close> that
  returns reports \<open>appended = true\<close>: the two branches that clear it are dead. Hence in both
  drain loops a record whose line was formatted is always added to the accumulating
  records (after they were emptied, if the call sent), and the dropped records grow by the
  accumulated ones when the call sent and failed, never by the record alone.
\<close>

theorem appended_is_always_true:
  fixes s :: "('r, 'm, 'v) sender" and recL :: 'r and recM :: 'm
  shows "snd (snd (Builder_WriteString b str)) = None
   \<and> (\<forall>ar err body' w'.
         appendAndSend s line pipeline body flds w = Returns ((ar, err), body', w') \<longrightarrow> appended ar)
   \<and> (\<forall>line ar err b' w'.
         sendLogs_format s recL = (line, None) \<longrightarrow>
         appendAndSend s line LogsPipeline (l_body LL) flds (l_world LL)
           = Returns ((ar, err), b', w') \<longrightarrow>
         (\<exists>L'. sendLogs_iter s flds recL LL = Returns L'
            \<and> currentRecords L' = (if sent ar then [] else currentRecords LL) @ [recL]
            \<and> droppedRecords L' =
                droppedRecords LL @ (if sent ar \<and> err \<noteq> None then currentRecords LL else [])))
   \<and> (\<forall>line ar err b' w'.
         sendMetrics_format s recM = (line, None) \<longrightarrow>
         appendAndSend s line MetricsPipeline (l_body LM) flds (l_world LM)
           = Returns ((ar, err), b', w') \<longrightarrow>
         (\<exists>L'. sendMetrics_iter s flds recM LM = Returns L'
            \<and> currentRecords L' = (if sent ar then [] else currentRecords LM) @ [recM]
            \<and> droppedRecords L' =
                droppedRecords LM @ (if sent ar \<and> err \<noteq> None then currentRecords LM else [])))"
proof (intro conjI allI impI)
  show "snd (snd (Builder_WriteString b str)) = None"
    by (simp add: Builder_WriteString_def)
next
  fix ar err body' w'
  assume "appendAndSend s line pipeline body flds w = Returns ((ar, err), body', w')"
  then show "appended ar" by (rule appendAndSend_appended)
next
  fix line ar err b' w'
  assume "sendLogs_format s recL = (line, None)"
    and "appendAndSend s line LogsPipeline (l_body LL) flds (l_world LL) = Returns ((ar, err), b', w')"
  from lines_iter_returns [OF this, of recL]
  show "\<exists>L'. sendLogs_iter s flds recL LL = Returns L'
            \<and> currentRecords L' = (if sent ar then [] else currentRecords LL) @ [recL]
            \<and> droppedRecords L' =
                droppedRecords LL @ (if sent ar \<and> err \<noteq> None then currentRecords LL else [])"
    by (simp add: sendLogs_iter_lines)
next
  fix line ar err b' w'
  assume "sendMetrics_format s recM = (line, None)"
    and "appendAndSend s line MetricsPipeline (l_body LM) flds (l_world LM)
           = Returns ((ar, err), b', w')"
  from lines_iter_returns [OF this, of recM]
  show "\<exists>L'. sendMetrics_iter s flds recM LM = Returns L'
            \<and> currentRecords L' = (if sent ar then [] else currentRecords LM) @ [recM]
            \<and> droppedRecords L' =
                droppedRecords LM @ (if sent ar \<and> err \<noteq> None then currentRecords LM else [])"
    by (simp add: sendMetrics_iter_lines)
qed

theorem appended_is_always_true_witness:
  "(\<exists>w. appendAndSend (demo_sender 3 (fail_at 1)) ''cd'' LogsPipeline ''ab'' [] empty_world
         = Returns ((\<lparr>sent = True, appended = True\<rparr>, None), ''cd'', w))
   \<and> (\<exists>L'. sendLogs_iter (demo_sender 3 (fail_at 1)) [] ''cd''
         \<lparr>l_body = ''ab'', l_errs = [], droppedRecords = [], currentRecords = [''ab''],
          l_world = empty_world\<rparr> = Returns L'
        \<and> currentRecords L' = [''cd''] \<and> droppedRecords L' = [])"
proof -
  let ?s = "demo_sender 3 (fail_at 1) :: (string, string, string) sender"
  let ?L = "\<lparr>l_body = ''ab'', l_errs = [], droppedRecords = [], currentRecords = [''ab''],
             l_world = empty_world\<rparr> :: string locals"
  have "\<exists>w. appendAndSend ?s ''cd'' LogsPipeline ''ab'' [] empty_world
          = Returns ((\<lparr>sent = True, appended = True\<rparr>, None), ''cd'', w)"
    by (simp add: appendAndSend_eq demo_limit demo_send demo_answers fail_at_def
        empty_world_def Let_def)
  then obtain w' where a:
    "appendAndSend ?s ''cd'' LogsPipeline ''ab'' [] empty_world =
       Returns ((\<lparr>sent = True, appended = True\<rparr>, None), ''cd'', w')"
    by blast
  then have a': "appendAndSend ?s ''cd'' LogsPipeline (l_body ?L) [] (l_world ?L) =
       Returns ((\<lparr>sent = True, appended = True\<rparr>, None), ''cd'', w')"
    by simp
  note t = appended_is_always_true
    [where s = "?s" and line = "''cd''" and pipeline = LogsPipeline and body = "''ab''"
       and flds = "[]" and w = empty_world and recL = "''cd''" and LL = "?L"]
  from t demo_format [of 3 "fail_at 1" "''cd''"] a'
  have "\<exists>L'. sendLogs_iter ?s [] ''cd'' ?L = Returns L'
      \<and> currentRecords L' =
          (if sent \<lparr>sent = True, appended = True\<rparr> then [] else currentRecords ?L) @ [''cd'']
      \<and> droppedRecords L' =
          droppedRecords ?L @ (if sent \<lparr>sent = True, appended = True\<rparr> \<and> (None :: error option) \<noteq> None
                            then currentRecords ?L else [])"
    by blast
  then have "\<exists>L'. sendLogs_iter ?s [] ''cd'' ?L = Returns L'
      \<and> currentRecords L' = [''cd''] \<and> droppedRecords L' = []"
    by simp
  with a show ?thesis by blast
qed

subsection \<open>The response interpreter\<close>

text \<open>
  C4. A response with status 401 makes \<open>handleReceiverResponse\<close> return the sentinel
  \<open>errUnauthorized\<close>, and so does \<open>send\<close> when the client delivers that response. For every
  other status the result is not the sentinel, and the error returned, if any, has another
  message too: a caller can tell the unauthorized outcome from every other one.
\<close>

theorem unauthorized_is_a_sentinel:
  "(StatusCode resp = 401 \<longrightarrow> handleReceiverResponse s resp w = Returns (Some errUnauthorized, w))
   \<and> (StatusCode resp \<noteq> 401 \<longrightarrow>
        (\<forall>w'. handleReceiverResponse s resp w \<noteq> Returns (Some errUnauthorized, w'))
        \<and> (\<forall>e w'. handleReceiverResponse s resp w = Returns (Some e, w') \<longrightarrow>
               Error e \<noteq> Error errUnauthorized))
   \<and> (\<forall>data req0 req.
         compress s body = Inr data \<longrightarrow> createRequest s pipeline data = Inr req0 \<longrightarrow>
         addRequestHeaders s req0 pipeline flds = Inr req \<longrightarrow>
         client_Do s (requests w) req = Inr resp \<longrightarrow>
         ((\<exists>w'. send s pipeline body flds w = Returns (Some errUnauthorized, w'))
            \<longleftrightarrow> StatusCode resp = 401))"
  by (auto simp: handleReceiverResponse_def send_def logger_Debug_def Let_def
      split: prod.splits option.splits)

theorem unauthorized_is_a_sentinel_witness:
  "handleReceiverResponse (demo_sender 3 (fail_at 1))
      \<lparr>StatusCode = 401, Status = ''401 Unauthorized'', ContentLength = 12, Body = ''unauthorized''\<rparr>
      empty_world = Returns (Some errUnauthorized, empty_world)
   \<and> handleReceiverResponse (demo_sender 3 (fail_at 1)) failed_response empty_world
       = Returns (Some (Errorf ''failed sending data: status: 500 Internal Server Error''), empty_world)
   \<and> Error (Errorf ''failed sending data: status: 500 Internal Server Error'')
       \<noteq> Error errUnauthorized"
proof -
  let ?r = "\<lparr>StatusCode = 401, Status = ''401 Unauthorized'', ContentLength = 12,
             Body = ''unauthorized''\<rparr>"
  let ?s = "demo_sender 3 (fail_at 1)"
  have a: "handleReceiverResponse ?s ?r empty_world = Returns (Some errUnauthorized, empty_world)"
    using unauthorized_is_a_sentinel [of ?r ?s empty_world] by simp
  have c: "handleReceiverResponse ?s failed_response empty_world
       = Returns (Some (Errorf ''failed sending data: status: 500 Internal Server Error''), empty_world)"
    by (rule demo_answers)
  have "StatusCode failed_response \<noteq> 401" by (simp add: failed_response_def)
  with unauthorized_is_a_sentinel [of failed_response ?s empty_world] c
  have b: "Error (Errorf ''failed sending data: status: 500 Internal Server Error'')
       \<noteq> Error errUnauthorized"
    by blast
  from a b c show ?thesis by simp
qed

text \<open>
  C5 fails on the code. A response with status 200 whose length is unknown
  (\<open>ContentLength = -1\<close>) passes the first test, enters the case of 200 and 204, and
  allocates the buffer with a negative capacity: \<open>handleReceiverResponse\<close> panics where
  the claim has it log a warning and return nil. With the concrete sender the request has
  been made by then, so \<open>send\<close> panics after the receiver accepted the data.
\<close>

theorem success_status_unknown_length_panics:
  "handleReceiverResponse s
     \<lparr>StatusCode = 200, Status = ''200 OK'', ContentLength = - 1, Body = body\<rparr> w = Panics w
   \<and> (\<forall>e w'. handleReceiverResponse s
        \<lparr>StatusCode = 200, Status = ''200 OK'', ContentLength = - 1, Body = body\<rparr> w
          \<noteq> Returns (e, w'))
   \<and> (\<exists>w'. send (demo_sender 5 (\<lambda>i. chunked_response)) LogsPipeline ''line'' [] empty_world
          = Panics w' \<and> map Data (requests w') = [''line''])"
proof (intro conjI)
  show "handleReceiverResponse s
     \<lparr>StatusCode = 200, Status = ''200 OK'', ContentLength = - 1, Body = body\<rparr> w = Panics w"
    by (simp add: handleReceiverResponse_def NewBuffer_make_def)
  then show "\<forall>e w'. handleReceiverResponse s
        \<lparr>StatusCode = 200, Status = ''200 OK'', ContentLength = - 1, Body = body\<rparr> w
          \<noteq> Returns (e, w')"
    by simp
  show "\<exists>w'. send (demo_sender 5 (\<lambda>i. chunked_response)) LogsPipeline ''line'' [] empty_world
          = Panics w' \<and> map Data (requests w') = [''line'']"
    by (simp add: demo_send demo_answers empty_world_def Let_def)
qed

text \<open>
  What holds of C5: a response with status 200 or 204 and a length that is known
  (\<open>ContentLength\<close> not negative) never yields an error. With \<open>ContentLength = 0\<close> nothing
  else happens. Otherwise one warning is logged and nil is still returned: when the body
  decodes, the warning carries the status and the non-empty fields among \<open>id\<close>, \<open>code\<close> and
  \<open>message\<close>; when it does not decode, the warning carries the bytes read from the body.
\<close>

theorem success_statuses_known_length:
  assumes "StatusCode resp = 200 \<or> StatusCode resp = 204" and "0 \<le> ContentLength resp"
  shows "handleReceiverResponse s resp w =
           Returns (None,
             if ContentLength resp = 0 then w
             else (case Decode_core s (Body resp) of
                     (b, None) \<Rightarrow>
                       logger_Warn ''Error decoding receiver response''
                         [(''body'', zap_ByteString b)] w
                   | (b, Some r) \<Rightarrow>
                       logger_Warn ''There was an issue sending data''
                         (spec_warning_fields (Status resp) r) w))"
  using assms
  by (auto simp: handleReceiverResponse_def spec_warning_fields_def NewBuffer_make_def Let_def
      split: prod.splits option.splits)

theorem success_statuses_known_length_witness:
  "handleReceiverResponse (demo_sender 3 (fail_at 1)) ok_response empty_world
     = Returns (None, empty_world)
   \<and> handleReceiverResponse (demo_sender 3 (fail_at 1))
        \<lparr>StatusCode = 200, Status = ''200 OK'', ContentLength = 4, Body = ''oops''\<rparr> empty_world
       = Returns (None, \<lparr>requests = [],
                 logged = [LogEntry WarnLevel ''Error decoding receiver response''
                             [(''body'', zap_ByteString ''oops'')]]\<rparr>)
   \<and> handleReceiverResponse
        (decoding_sender \<lparr>core_Status = 200, ID = ''A1'', Code = [], Message = ''bad line'',
                           Errors = []\<rparr>)
        \<lparr>StatusCode = 204, Status = ''204 No Content'', ContentLength = 40, Body = ''{}''\<rparr>
        empty_world
       = Returns (None, \<lparr>requests = [],
                 logged = [LogEntry WarnLevel ''There was an issue sending data''
                             [(''status'', zap_String ''204 No Content''),
                              (''id'', zap_String ''A1''),
                              (''message'', zap_String ''bad line'')]]\<rparr>)"
proof -
  let ?r1 = "\<lparr>StatusCode = 200, Status = ''200 OK'', ContentLength = 4, Body = ''oops''\<rparr>"
  let ?r2 = "\<lparr>StatusCode = 204, Status = ''204 No Content'', ContentLength = 40, Body = ''{}''\<rparr>"
  let ?d = "decoding_sender \<lparr>core_Status = 200, ID = ''A1'', Code = [], Message = ''bad line'',
                           Errors = []\<rparr>"
  have h0: "StatusCode ok_response = 200 \<or> StatusCode ok_response = 204"
    and l0: "0 \<le> ContentLength ok_response"
    by (simp_all add: ok_response_def)
  have h1: "StatusCode ?r1 = 200 \<or> StatusCode ?r1 = 204" and l1: "0 \<le> ContentLength ?r1"
    by simp_all
  have h2: "StatusCode ?r2 = 200 \<or> StatusCode ?r2 = 204" and l2: "0 \<le> ContentLength ?r2"
    by simp_all
  have a: "handleReceiverResponse (demo_sender 3 (fail_at 1)) ok_response empty_world
             = Returns (None, empty_world)"
    using success_statuses_known_length [OF h0 l0, of "demo_sender 3 (fail_at 1)" empty_world]
    by (simp add: ok_response_def)
  have b: "handleReceiverResponse (demo_sender 3 (fail_at 1)) ?r1 empty_world
       = Returns (None, \<lparr>requests = [],
                 logged = [LogEntry WarnLevel ''Error decoding receiver response''
                             [(''body'', zap_ByteString ''oops'')]]\<rparr>)"
    using success_statuses_known_length [OF h1 l1, of "demo_sender 3 (fail_at 1)" empty_world]
    by (simp add: demo_sender_def logger_Warn_def empty_world_def)
  have c: "handleReceiverResponse ?d ?r2 empty_world
       = Returns (None, \<lparr>requests = [],
                 logged = [LogEntry WarnLevel ''There was an issue sending data''
                             [(''status'', zap_String ''204 No Content''),
                              (''id'', zap_String ''A1''),
                              (''message'', zap_String ''bad line'')]]\<rparr>)"
    using success_statuses_known_length [OF h2 l2, of ?d empty_world]
    by (simp add: decoding_sender_def demo_sender_def logger_Warn_def empty_world_def
        spec_warning_fields_def ReceiverResponseCore.truncate_def)
  from a b c show ?thesis by simp
qed




subsection \<open>Pushing records\<close>

text \<open>A push that leaves the buffer below \<open>maxBufferSize\<close> only appends.\<close>

lemma batchLog_below:
  assumes "int (length (logBuffer st)) + 1 < maxBufferSize"
  shows "batchLog s log metadata st =
           Returns (([], None), st\<lparr>logBuffer := logBuffer st @ [log]\<rparr>)"
  using assms by (simp add: batchLog_def countLogs_def Let_def)

lemma batchMetric_below:
  assumes "int (length (metricBuffer st)) + 1 < maxBufferSize"
  shows "batchMetric s metric metadata st =
           Returns (([], None), st\<lparr>metricBuffer := metricBuffer st @ [metric]\<rparr>)"
  using assms by (simp add: batchMetric_def countMetrics_def Let_def)

lemma batchLog_all_below:
  "int (length (logBuffer st)) + int (length logs) < maxBufferSize \<Longrightarrow>
   batchLog_all s logs metadata st =
     Returns (replicate (length logs) ([], None), st\<lparr>logBuffer := logBuffer st @ logs\<rparr>)"
proof (induction logs arbitrary: st)
  case Nil
  show ?case by simp
next
  case (Cons log logs)
  let ?st1 = "st\<lparr>logBuffer := logBuffer st @ [log]\<rparr>"
  from Cons.prems have one: "int (length (logBuffer st)) + 1 < maxBufferSize" by simp
  from Cons.prems have rest: "int (length (logBuffer ?st1)) + int (length logs) < maxBufferSize"
    by simp
  show ?case
    by (simp add: batchLog_below [OF one] Cons.IH [OF rest])
qed

lemma batchMetric_all_below:
  "int (length (metricBuffer st)) + int (length metrics) < maxBufferSize \<Longrightarrow>
   batchMetric_all s metrics metadata st =
     Returns (replicate (length metrics) ([], None),
              st\<lparr>metricBuffer := metricBuffer st @ metrics\<rparr>)"
proof (induction metrics arbitrary: st)
  case Nil
  show ?case by simp
next
  case (Cons metric metrics)
  let ?st1 = "st\<lparr>metricBuffer := metricBuffer st @ [metric]\<rparr>"
  from Cons.prems have one: "int (length (metricBuffer st)) + 1 < maxBufferSize" by simp
  from Cons.prems have rest:
    "int (length (metricBuffer ?st1)) + int (length metrics) < maxBufferSize"
    by simp
  show ?case
    by (simp add: batchMetric_below [OF one] Cons.IH [OF rest])
qed

text \<open>
  A push that fills the buffer drains it and, when the drain returns, leaves it empty.
\<close>

lemma batchLog_full:
  assumes "maxBufferSize \<le> int (length (logBuffer st)) + 1"
  shows "batchLog s log metadata st =
           (case sendLogs s metadata (st\<lparr>logBuffer := logBuffer st @ [log]\<rparr>) of
              Panics st2 \<Rightarrow> Panics st2
            | Returns (res, st2) \<Rightarrow> Returns (res, st2\<lparr>logBuffer := []\<rparr>))"
  using assms
  by (simp add: batchLog_def countLogs_def cleanLogsBuffer_def Let_def
      split: prod.splits outcome.splits)

lemma batchMetric_full:
  assumes "maxBufferSize \<le> int (length (metricBuffer st)) + 1"
  shows "batchMetric s metric metadata st =
           (case sendMetrics s metadata (st\<lparr>metricBuffer := metricBuffer st @ [metric]\<rparr>) of
              Panics st2 \<Rightarrow> Panics st2
            | Returns (res, st2) \<Rightarrow> Returns (res, st2\<lparr>metricBuffer := []\<rparr>))"
  using assms
  by (simp add: batchMetric_def countMetrics_def cleanMetricBuffer_def Let_def
      split: prod.splits outcome.splits)

text \<open>
  C8. For every sequence of \<open>batchLog\<close> (or \<open>batchMetric\<close>) calls during which the length of
  the buffer stays strictly below \<open>maxBufferSize\<close>, no call drains: each returns an empty
  dropped list and a nil error, the records are appended in order, and the world is
  unchanged, so no request is made. The call that makes the buffer reach \<open>maxBufferSize\<close>
  runs \<open>sendLogs\<close> (\<open>sendMetrics\<close>) on the buffer with the new record before it returns; it
  returns what the drain returns, and then the buffer is empty.
\<close>

theorem drain_only_at_the_cap:
  fixes s :: "('r, 'm, 'v) sender" and st :: "('r, 'm) state"
  shows
  "(int (length (logBuffer st)) + int (length logs) < maxBufferSize \<longrightarrow>
      batchLog_all s logs metadata st =
        Returns (replicate (length logs) ([], None), st\<lparr>logBuffer := logBuffer st @ logs\<rparr>))
   \<and> (int (length (metricBuffer st)) + int (length metrics) < maxBufferSize \<longrightarrow>
      batchMetric_all s metrics metadata st =
        Returns (replicate (length metrics) ([], None),
                 st\<lparr>metricBuffer := metricBuffer st @ metrics\<rparr>))
   \<and> (maxBufferSize \<le> int (length (logBuffer st)) + 1 \<longrightarrow>
      batchLog s log metadata st =
        (case sendLogs s metadata (st\<lparr>logBuffer := logBuffer st @ [log]\<rparr>) of
           Panics st2 \<Rightarrow> Panics st2
         | Returns (res, st2) \<Rightarrow> Returns (res, st2\<lparr>logBuffer := []\<rparr>))
      \<and> (\<forall>res st'. batchLog s log metadata st = Returns (res, st') \<longrightarrow> logBuffer st' = []))
   \<and> (maxBufferSize \<le> int (length (metricBuffer st)) + 1 \<longrightarrow>
      batchMetric s metric metadata st =
        (case sendMetrics s metadata (st\<lparr>metricBuffer := metricBuffer st @ [metric]\<rparr>) of
           Panics st2 \<Rightarrow> Panics st2
         | Returns (res, st2) \<Rightarrow> Returns (res, st2\<lparr>metricBuffer := []\<rparr>))
      \<and> (\<forall>res st'. batchMetric s metric metadata st = Returns (res, st') \<longrightarrow>
             metricBuffer st' = []))"
  by (auto simp: batchLog_all_below batchMetric_all_below batchLog_full batchMetric_full
      split: prod.splits outcome.splits)

text \<open>An OTLP drain with the concrete sender is one request, which the receiver accepts.\<close>

lemma otlp_drains:
  "\<exists>w. sendLogs otlp_sender [] \<lparr>logBuffer = logs, metricBuffer = ms, world = empty_world\<rparr>
         = Returns (([], None), \<lparr>logBuffer = logs, metricBuffer = ms, world = w\<rparr>)"
  "\<exists>w. sendMetrics otlp_sender [] \<lparr>logBuffer = logs, metricBuffer = ms, world = empty_world\<rparr>
         = Returns (([], None), \<lparr>logBuffer = logs, metricBuffer = ms, world = w\<rparr>)"
  by (simp_all add: sendLogs_def sendOTLPLogs_def sendMetrics_def sendOTLPMetrics_def
      otlp_sender_def demo_sender_def demo_config_def send_def createRequest_def
      addRequestHeaders_def addCompressHeader_def addSourcesHeaders_def addLogsHeaders_def
      addMetricsHeaders_def fields_string_def Header_Add_def logger_Debug_def Let_def
      demo_answers fail_at_def empty_world_def)

theorem drain_only_at_the_cap_witness:
  "batchLog_all (demo_sender 5 (fail_at 1)) [''l2'', ''l3''] [] (demo_state [''l1''] []) =
     Returns ([([], None), ([], None)], demo_state [''l1'', ''l2'', ''l3''] [])
   \<and> batchMetric_all (demo_sender 5 (fail_at 1)) [''m1''] [] (demo_state [''l1''] []) =
     Returns ([([], None)], demo_state [''l1''] [''m1''])
   \<and> (\<exists>res st'. batchLog otlp_sender ''last'' [] (demo_state (replicate 1048575 ''x'') [])
          = Returns (res, st') \<and> logBuffer st' = [])
   \<and> (\<exists>res st'. batchMetric otlp_sender ''last'' [] (demo_state [] (replicate 1048575 ''x''))
          = Returns (res, st') \<and> metricBuffer st' = [])"
proof -
  let ?s = "demo_sender 5 (fail_at 1)"
  let ?full = "replicate 1048575 ''x'' :: string list"
  note t1 = drain_only_at_the_cap
    [where s = "?s" and st = "demo_state [''l1''] []" and logs = "[''l2'', ''l3'']"
       and metrics = "[''m1'']" and metadata = "[]"]
  note t2 = drain_only_at_the_cap
    [where s = otlp_sender and st = "demo_state ?full []"
       and log = "''last''" and metadata = "[]"]
  note t3 = drain_only_at_the_cap
    [where s = otlp_sender and st = "demo_state [] ?full"
       and metric = "''last''" and metadata = "[]"]
  have h1: "int (length (logBuffer (demo_state [''l1''] []))) + int (length [''l2'', ''l3''])
              < maxBufferSize"
    by (simp add: demo_state_def maxBufferSize_def)
  have h1': "int (length (metricBuffer (demo_state [''l1''] []))) + int (length [''m1''])
              < maxBufferSize"
    by (simp add: demo_state_def maxBufferSize_def)
  have h2: "maxBufferSize \<le> int (length (logBuffer (demo_state ?full []))) + 1"
    by (simp add: demo_state_def maxBufferSize_def)
  have h3: "maxBufferSize \<le> int (length (metricBuffer (demo_state [] ?full))) + 1"
    by (simp add: demo_state_def maxBufferSize_def)
  from t1 h1 have "batchLog_all ?s [''l2'', ''l3''] [] (demo_state [''l1''] []) =
      Returns (replicate (length [''l2'', ''l3'']) ([], None),
       (demo_state [''l1''] [])\<lparr>logBuffer := logBuffer (demo_state [''l1''] []) @ [''l2'', ''l3'']\<rparr>)"
    by blast
  then have a: "batchLog_all ?s [''l2'', ''l3''] [] (demo_state [''l1''] []) =
     Returns ([([], None), ([], None)], demo_state [''l1'', ''l2'', ''l3''] [])"
    by (simp add: demo_state_def)
  from t1 h1' have "batchMetric_all ?s [''m1''] [] (demo_state [''l1''] []) =
      Returns (replicate (length [''m1'']) ([], None),
       (demo_state [''l1''] [])\<lparr>metricBuffer := metricBuffer (demo_state [''l1''] []) @ [''m1'']\<rparr>)"
    by blast
  then have b: "batchMetric_all ?s [''m1''] [] (demo_state [''l1''] []) =
     Returns ([([], None)], demo_state [''l1''] [''m1''])"
    by (simp add: demo_state_def)
  from t2 h2 have c0: "batchLog otlp_sender ''last'' [] (demo_state ?full []) =
      (case sendLogs otlp_sender []
              ((demo_state ?full [])\<lparr>logBuffer := logBuffer (demo_state ?full []) @ [''last'']\<rparr>) of
         Panics st2 \<Rightarrow> Panics st2
       | Returns (res, st2) \<Rightarrow> Returns (res, st2\<lparr>logBuffer := []\<rparr>))"
    by blast
  obtain w where "sendLogs otlp_sender []
      \<lparr>logBuffer = ?full @ [''last''], metricBuffer = [], world = empty_world\<rparr>
      = Returns (([], None), \<lparr>logBuffer = ?full @ [''last''], metricBuffer = [], world = w\<rparr>)"
    using otlp_drains(1) by blast
  with c0 have c: "\<exists>res st'. batchLog otlp_sender ''last'' [] (demo_state ?full [])
          = Returns (res, st') \<and> logBuffer st' = []"
    by (simp add: demo_state_def)
  from t3 h3 have d0: "batchMetric otlp_sender ''last'' [] (demo_state [] ?full) =
      (case sendMetrics otlp_sender []
              ((demo_state [] ?full)\<lparr>metricBuffer := metricBuffer (demo_state [] ?full) @ [''last'']\<rparr>) of
         Panics st2 \<Rightarrow> Panics st2
       | Returns (res, st2) \<Rightarrow> Returns (res, st2\<lparr>metricBuffer := []\<rparr>))"
    by blast
  obtain w where "sendMetrics otlp_sender []
      \<lparr>logBuffer = [], metricBuffer = ?full @ [''last''], world = empty_world\<rparr>
      = Returns (([], None), \<lparr>logBuffer = [], metricBuffer = ?full @ [''last''], world = w\<rparr>)"
    using otlp_drains(2) by blast
  with d0 have d: "\<exists>res st'. batchMetric otlp_sender ''last'' [] (demo_state [] ?full)
          = Returns (res, st') \<and> metricBuffer st' = []"
    by (simp add: demo_state_def)
  from a b c d show ?thesis by blast
qed

subsection \<open>Which records a drain reports dropped\<close>

text \<open>
  One iteration adds to the dropped records only the record itself or accumulated ones,
  and to the accumulated records only the record itself.
\<close>

lemma lines_iter_dropped_subset:
  assumes "lines_iter s p flds rec fm L = Returns L'"
  shows "set (droppedRecords L') \<subseteq> set (droppedRecords L) \<union> set (currentRecords L) \<union> {rec}"
  using assms
  by (auto simp: lines_iter_def lines_account_def
      split: prod.splits option.splits outcome.splits if_splits)

lemma lines_iter_current_subset:
  assumes "lines_iter s p flds rec fm L = Returns L'"
  shows "set (currentRecords L') \<subseteq> set (currentRecords L) \<union> {rec}"
  using assms
  by (auto simp: lines_iter_def lines_account_def
      split: prod.splits option.splits outcome.splits if_splits)

text \<open>A record is never both dropped and accumulated, as long as the records are distinct.\<close>

lemma lines_iter_disjoint:
  assumes "lines_iter s p flds rec fm L = Returns L'"
    and "set (droppedRecords L) \<inter> set (currentRecords L) = {}"
    and "rec \<notin> set (droppedRecords L)" and "rec \<notin> set (currentRecords L)"
  shows "set (droppedRecords L') \<inter> set (currentRecords L') = {}"
  using assms
  by (auto simp: lines_iter_def lines_account_def appendAndSend_eq
      split: prod.splits option.splits outcome.splits if_splits)

lemma lines_loop_subsets:
  assumes "lines_loop s format p flds recs L = Returns L'"
  shows "set (droppedRecords L') \<subseteq> set (droppedRecords L) \<union> set (currentRecords L) \<union> set recs
       \<and> set (currentRecords L') \<subseteq> set (currentRecords L) \<union> set recs"
  using assms
proof (induction recs arbitrary: L)
  case Nil
  then show ?case by simp
next
  case (Cons rec rest)
  from Cons.prems obtain L1 where
    step: "lines_iter s p flds rec (format rec) L = Returns L1"
    and rest: "lines_loop s format p flds rest L1 = Returns L'"
    by (auto split: outcome.splits)
  note d = lines_iter_dropped_subset [OF step]
  note c = lines_iter_current_subset [OF step]
  from Cons.IH [OF rest] d c show ?case by auto
qed

lemma lines_loop_disjoint:
  assumes "lines_loop s format p flds recs L = Returns L'"
    and "distinct recs"
    and "set recs \<inter> (set (droppedRecords L) \<union> set (currentRecords L)) = {}"
    and "set (droppedRecords L) \<inter> set (currentRecords L) = {}"
  shows "set (droppedRecords L') \<inter> set (currentRecords L') = {}"
  using assms
proof (induction recs arbitrary: L)
  case Nil
  then show ?case by simp
next
  case (Cons rec rest)
  from Cons.prems(1) obtain L1 where
    step: "lines_iter s p flds rec (format rec) L = Returns L1"
    and rest: "lines_loop s format p flds rest L1 = Returns L'"
    by (auto split: outcome.splits)
  note d = lines_iter_dropped_subset [OF step]
  note c = lines_iter_current_subset [OF step]
  from Cons.prems have fresh: "rec \<notin> set (droppedRecords L)" "rec \<notin> set (currentRecords L)"
    by auto
  have 1: "distinct rest" using Cons.prems by simp
  have 2: "set rest \<inter> (set (droppedRecords L1) \<union> set (currentRecords L1)) = {}"
    using Cons.prems d c by auto
  have 3: "set (droppedRecords L1) \<inter> set (currentRecords L1) = {}"
    using step Cons.prems(4) fresh by (rule lines_iter_disjoint)
  from Cons.IH [OF rest 1 2 3] show ?case .
qed

lemma lines_loop_append:
  "lines_loop s format p flds (xs @ ys) L =
     (case lines_loop s format p flds xs L of
        Panics w \<Rightarrow> Panics w
      | Returns L1 \<Rightarrow> lines_loop s format p flds ys L1)"
  by (induction xs arbitrary: L) (simp_all split: outcome.splits)

lemma lines_flush_dropped_subset:
  assumes "lines_flush s p flds L = Returns L'"
  shows "set (droppedRecords L') \<subseteq> set (droppedRecords L) \<union> set (currentRecords L)"
  using assms
  by (auto simp: lines_flush_def split: prod.splits option.splits outcome.splits if_splits)

text \<open>An iteration whose append flushed: the flush failed, or it succeeded.\<close>

lemma lines_iter_failed_flush:
  assumes "fm = (line, None)"
    and "appendAndSend s line p (l_body L) flds (l_world L) = Returns ((ar, Some e), b', w')"
    and "sent ar"
  shows "\<exists>L'. lines_iter s p flds rec fm L = Returns L'
       \<and> droppedRecords L' = droppedRecords L @ currentRecords L @ (if appended ar then [] else [rec])
       \<and> currentRecords L' = (if appended ar then [rec] else [])"
  using assms by (simp add: lines_iter_def lines_account_def)

lemma lines_iter_good_flush:
  assumes "fm = (line, None)"
    and "appendAndSend s line p (l_body L) flds (l_world L) = Returns ((ar, None), b', w')"
    and "sent ar"
  shows "\<exists>L'. lines_iter s p flds rec fm L = Returns L'
       \<and> droppedRecords L' = droppedRecords L \<and> currentRecords L' = [rec]"
  using lines_iter_returns [OF assms(1,2), of rec] assms(3) by auto

text \<open>
  The records accumulated when a flush succeeds are not among the dropped records at the
  end of the drain.
\<close>

lemma lines_flushed_never_dropped:
  assumes d: "distinct (pre @ rec # post)"
    and L1: "lines_loop s format p flds pre (init_locals w) = Returns L1"
    and f: "format rec = (line, None)"
    and a: "appendAndSend s line p (l_body L1) flds (l_world L1) = Returns ((ar, None), b', w')"
    and sent: "sent ar"
    and fin: "lines_drain s format p flds (pre @ rec # post) w = Returns Lf"
  shows "set (currentRecords L1) \<inter> set (droppedRecords Lf) = {}"
proof -
  from lines_iter_good_flush [OF f a sent, of rec] obtain L2 where
    L2: "lines_iter s p flds rec (format rec) L1 = Returns L2"
    "droppedRecords L2 = droppedRecords L1" "currentRecords L2 = [rec]"
    by blast
  from fin L1 L2(1) obtain L3 where
    L3: "lines_loop s format p flds post L2 = Returns L3"
    and flush: "lines_flush s p flds L3 = Returns Lf"
    by (auto simp: lines_drain_def lines_loop_append split: outcome.splits)
  have "set (droppedRecords Lf) \<subseteq> set (droppedRecords L3) \<union> set (currentRecords L3)"
    using flush by (rule lines_flush_dropped_subset)
  also have "\<dots> \<subseteq> set (droppedRecords L2) \<union> set (currentRecords L2) \<union> set post"
    using lines_loop_subsets [OF L3] by auto
  finally have final: "set (droppedRecords Lf) \<subseteq> set (droppedRecords L1) \<union> {rec} \<union> set post"
    by (simp add: L2)
  have cur: "set (currentRecords L1) \<subseteq> set pre"
    using lines_loop_subsets [OF L1] by (simp add: init_locals_def)
  from d have dp: "distinct pre" by simp
  have "set (droppedRecords L1) \<inter> set (currentRecords L1) = {}"
    by (rule lines_loop_disjoint [OF L1 dp]) (simp_all add: init_locals_def)
  with final cur d show ?thesis by auto
qed

text \<open>
  As long as no formatted line is empty, the body is made of the lines of the accumulated
  records and of nothing else.
\<close>

lemma Join_snoc:
  "Join (xs @ [x]) sep = (if xs = [] then x else Join xs sep @ sep @ x)"
  by (induction xs sep rule: Join.induct) simp_all

lemma Join_empty:
  assumes "\<forall>x \<in> set xs. x \<noteq> []" and "Join xs sep = []"
  shows "xs = []"
  using assms by (induction xs sep rule: Join.induct) auto

lemma init_body_of: "body_of format (init_locals w)"
  by (simp add: body_of_def init_locals_def)

lemma lines_iter_body_of:
  assumes "lines_iter s p flds rec (format rec) L = Returns L'"
    and "body_of format L" and "snd (format rec) = None \<longrightarrow> fst (format rec) \<noteq> []"
  shows "body_of format L'"
proof (cases "format rec")
  case (Pair line err)
  show ?thesis
  proof (cases err)
    case (Some e)
    with Pair assms(1,2) show ?thesis
      by (auto simp: lines_iter_def body_of_def)
  next
    case None
    with Pair assms(3) have ne: "line \<noteq> []" by simp
    have fst: "fst (format rec) = line" using Pair by simp
    show ?thesis
    proof (cases "l_body L = []")
      case True
      with assms(2) have "currentRecords L = []"
        unfolding body_of_def
        using Join_empty [of "map (\<lambda>r. fst (format r)) (currentRecords L)" newline] by auto
      with True Pair None ne fst assms(1) show ?thesis
        by (auto simp: lines_iter_def lines_account_def appendAndSend_eq body_of_def)
    next
      case False
      with assms(2) have cne: "currentRecords L \<noteq> []"
        unfolding body_of_def by auto
      with False Pair None ne fst assms(1,2) show ?thesis
        by (auto simp: lines_iter_def lines_account_def appendAndSend_eq body_of_def Join_snoc
            split: prod.splits outcome.splits if_splits)
    qed
  qed
qed

lemma lines_loop_body_of:
  assumes "lines_loop s format p flds recs L = Returns L'"
    and "body_of format L"
    and "\<forall>r \<in> set recs. snd (format r) = None \<longrightarrow> fst (format r) \<noteq> []"
  shows "body_of format L'"
  using assms
proof (induction recs arbitrary: L)
  case Nil
  then show ?case by simp
next
  case (Cons rec rest)
  from Cons.prems(1) obtain L1 where
    step: "lines_iter s p flds rec (format rec) L = Returns L1"
    and rest: "lines_loop s format p flds rest L1 = Returns L'"
    by (auto split: outcome.splits)
  from Cons.prems have "body_of format L1"
    by (intro lines_iter_body_of [where format = format, OF step]) simp_all
  with Cons.prems show ?case
    by (intro Cons.IH [OF rest]) simp_all
qed

lemma lines_loop_body:
  assumes "lines_loop s format p flds pre (init_locals w) = Returns L1"
    and "\<forall>r \<in> set pre. snd (format r) = None \<longrightarrow> fst (format r) \<noteq> []"
  shows "l_body L1 = Join (map (\<lambda>r. fst (format r)) (currentRecords L1)) newline"
  using lines_loop_body_of [OF assms(1) init_body_of assms(2)]
  by (simp add: body_of_def)

text \<open>The dropped records of \<open>sendLogs\<close> and \<open>sendMetrics\<close> are those of the common form.\<close>

lemma sendLogs_dropped_lines:
  assumes "LogFormat (config s) \<noteq> OTLPLogFormat"
    and "sendLogs s flds st = Returns ((dropped, err), st')"
  shows "\<exists>Lf. lines_drain s (sendLogs_format s) LogsPipeline flds (logBuffer st) (world st)
                = Returns Lf \<and> dropped = droppedRecords Lf"
  using assms by (auto simp: sendLogs_lines split: outcome.splits)

lemma sendMetrics_dropped_lines:
  assumes "MetricFormat (config s) \<noteq> OTLPMetricFormat"
    and "sendMetrics s flds st = Returns ((dropped, err), st')"
  shows "\<exists>Lf. lines_drain s (sendMetrics_format s) MetricsPipeline flds (metricBuffer st) (world st)
                = Returns Lf \<and> dropped = droppedRecords Lf"
  using assms by (auto simp: sendMetrics_lines split: outcome.splits)

text \<open>
  C9. In a line-oriented drain (\<open>sendLogs\<close>, \<open>sendMetrics\<close>), when an append reports
  \<open>sent = true\<close> and the transmission of the flushed body failed, the records added to the
  dropped list are exactly the accumulated ones (and the current record too when its own
  append failed), and the accumulated records are emptied before the current record, once
  appended, starts the next body. The accumulated records are the ones whose lines make up
  the body that was sent, as long as no formatted line is empty. And when the flush
  succeeded, none of the records accumulated into it is among the dropped records that the
  drain returns; records are told apart by position, so the buffer is taken to hold
  distinct records.
\<close>

theorem failed_flush_drops_its_records:
  fixes s :: "('r, 'm, 'v) sender" and st :: "('r, 'm) state"
    and rec :: 'r and L :: "'r locals" and recM :: 'm and LM :: "'m locals"
  shows
  "(\<forall>line ar e b' w'.
      sendLogs_format s rec = (line, None) \<longrightarrow>
      appendAndSend s line LogsPipeline (l_body L) flds (l_world L)
        = Returns ((ar, Some e), b', w') \<longrightarrow>
      sent ar \<longrightarrow>
      (\<exists>L'. sendLogs_iter s flds rec L = Returns L'
         \<and> droppedRecords L' =
             droppedRecords L @ currentRecords L @ (if appended ar then [] else [rec])
         \<and> currentRecords L' = (if appended ar then [rec] else [])))
   \<and> (\<forall>pre post L1.
      LogFormat (config s) \<noteq> OTLPLogFormat \<longrightarrow>
      logBuffer st = pre @ rec # post \<longrightarrow>
      sendLogs_loop s flds pre (init_locals (world st)) = Returns L1 \<longrightarrow>
      ((\<forall>r \<in> set pre. snd (sendLogs_format s r) = None \<longrightarrow> fst (sendLogs_format s r) \<noteq> []) \<longrightarrow>
         l_body L1 = Join (map (\<lambda>r. fst (sendLogs_format s r)) (currentRecords L1)) newline)
      \<and> (\<forall>line ar b' w' dropped err st'.
            distinct (logBuffer st) \<longrightarrow>
            sendLogs_format s rec = (line, None) \<longrightarrow>
            appendAndSend s line LogsPipeline (l_body L1) flds (l_world L1)
              = Returns ((ar, None), b', w') \<longrightarrow>
            sent ar \<longrightarrow>
            sendLogs s flds st = Returns ((dropped, err), st') \<longrightarrow>
            set (currentRecords L1) \<inter> set dropped = {}))
   \<and> (\<forall>line ar e b' w'.
      sendMetrics_format s recM = (line, None) \<longrightarrow>
      appendAndSend s line MetricsPipeline (l_body LM) flds (l_world LM)
        = Returns ((ar, Some e), b', w') \<longrightarrow>
      sent ar \<longrightarrow>
      (\<exists>L'. sendMetrics_iter s flds recM LM = Returns L'
         \<and> droppedRecords L' =
             droppedRecords LM @ currentRecords LM @ (if appended ar then [] else [recM])
         \<and> currentRecords L' = (if appended ar then [recM] else [])))
   \<and> (\<forall>pre post L1.
      MetricFormat (config s) \<noteq> OTLPMetricFormat \<longrightarrow>
      metricBuffer st = pre @ recM # post \<longrightarrow>
      sendMetrics_loop s flds pre (init_locals (world st)) = Returns L1 \<longrightarrow>
      ((\<forall>r \<in> set pre. snd (sendMetrics_format s r) = None \<longrightarrow> fst (sendMetrics_format s r) \<noteq> []) \<longrightarrow>
         l_body L1 = Join (map (\<lambda>r. fst (sendMetrics_format s r)) (currentRecords L1)) newline)
      \<and> (\<forall>line ar b' w' dropped err st'.
            distinct (metricBuffer st) \<longrightarrow>
            sendMetrics_format s recM = (line, None) \<longrightarrow>
            appendAndSend s line MetricsPipeline (l_body L1) flds (l_world L1)
              = Returns ((ar, None), b', w') \<longrightarrow>
            sent ar \<longrightarrow>
            sendMetrics s flds st = Returns ((dropped, err), st') \<longrightarrow>
            set (currentRecords L1) \<inter> set dropped = {}))"
proof (intro conjI allI impI)
  fix line ar e b' w'
  assume "sendLogs_format s rec = (line, None)"
    and "appendAndSend s line LogsPipeline (l_body L) flds (l_world L) = Returns ((ar, Some e), b', w')"
    and "sent ar"
  from lines_iter_failed_flush [OF this, of rec]
  show "\<exists>L'. sendLogs_iter s flds rec L = Returns L'
         \<and> droppedRecords L' =
             droppedRecords L @ currentRecords L @ (if appended ar then [] else [rec])
         \<and> currentRecords L' = (if appended ar then [rec] else [])"
    by (simp add: sendLogs_iter_lines)
next
  fix line ar e b' w'
  assume "sendMetrics_format s recM = (line, None)"
    and "appendAndSend s line MetricsPipeline (l_body LM) flds (l_world LM)
           = Returns ((ar, Some e), b', w')"
    and "sent ar"
  from lines_iter_failed_flush [OF this, of recM]
  show "\<exists>L'. sendMetrics_iter s flds recM LM = Returns L'
         \<and> droppedRecords L' =
             droppedRecords LM @ currentRecords LM @ (if appended ar then [] else [recM])
         \<and> currentRecords L' = (if appended ar then [recM] else [])"
    by (simp add: sendMetrics_iter_lines)
next
  fix pre :: "'r list" and L1 :: "'r locals"
  assume "sendLogs_loop s flds pre (init_locals (world st)) = Returns L1"
    and ne: "\<forall>r \<in> set pre. snd (sendLogs_format s r) = None \<longrightarrow> fst (sendLogs_format s r) \<noteq> []"
  then have "lines_loop s (sendLogs_format s) LogsPipeline flds pre (init_locals (world st))
               = Returns L1"
    by (simp add: sendLogs_loop_lines)
  from lines_loop_body [OF this ne]
  show "l_body L1 = Join (map (\<lambda>r. fst (sendLogs_format s r)) (currentRecords L1)) newline" .
next
  fix pre :: "'m list" and L1 :: "'m locals"
  assume "sendMetrics_loop s flds pre (init_locals (world st)) = Returns L1"
    and ne: "\<forall>r \<in> set pre. snd (sendMetrics_format s r) = None
               \<longrightarrow> fst (sendMetrics_format s r) \<noteq> []"
  then have "lines_loop s (sendMetrics_format s) MetricsPipeline flds pre (init_locals (world st))
               = Returns L1"
    by (simp add: sendMetrics_loop_lines)
  from lines_loop_body [OF this ne]
  show "l_body L1 = Join (map (\<lambda>r. fst (sendMetrics_format s r)) (currentRecords L1)) newline" .
next
  fix pre post :: "'r list" and L1 :: "'r locals" and line ar b' w' dropped err
    and st' :: "('r, 'm) state"
  assume fmt: "LogFormat (config s) \<noteq> OTLPLogFormat"
    and buf: "logBuffer st = pre @ rec # post"
    and L1: "sendLogs_loop s flds pre (init_locals (world st)) = Returns L1"
    and d: "distinct (logBuffer st)"
    and f: "sendLogs_format s rec = (line, None)"
    and a: "appendAndSend s line LogsPipeline (l_body L1) flds (l_world L1)
              = Returns ((ar, None), b', w')"
    and sent: "sent ar"
    and fin: "sendLogs s flds st = Returns ((dropped, err), st')"
  from d buf have d': "distinct (pre @ rec # post)" by simp
  from L1 have L1': "lines_loop s (sendLogs_format s) LogsPipeline flds pre (init_locals (world st))
                       = Returns L1"
    by (simp add: sendLogs_loop_lines)
  from sendLogs_dropped_lines [OF fmt fin] buf obtain Lf where
    Lf: "lines_drain s (sendLogs_format s) LogsPipeline flds (pre @ rec # post) (world st)
           = Returns Lf"
    and dr: "dropped = droppedRecords Lf"
    by auto
  from lines_flushed_never_dropped [OF d' L1' f a sent Lf]
  show "set (currentRecords L1) \<inter> set dropped = {}"
    by (simp add: dr)
next
  fix pre post :: "'m list" and L1 :: "'m locals" and line ar b' w' dropped err
    and st' :: "('r, 'm) state"
  assume fmt: "MetricFormat (config s) \<noteq> OTLPMetricFormat"
    and buf: "metricBuffer st = pre @ recM # post"
    and L1: "sendMetrics_loop s flds pre (init_locals (world st)) = Returns L1"
    and d: "distinct (metricBuffer st)"
    and f: "sendMetrics_format s recM = (line, None)"
    and a: "appendAndSend s line MetricsPipeline (l_body L1) flds (l_world L1)
              = Returns ((ar, None), b', w')"
    and sent: "sent ar"
    and fin: "sendMetrics s flds st = Returns ((dropped, err), st')"
  from d buf have d': "distinct (pre @ recM # post)" by simp
  from L1 have L1': "lines_loop s (sendMetrics_format s) MetricsPipeline flds pre
                       (init_locals (world st)) = Returns L1"
    by (simp add: sendMetrics_loop_lines)
  from sendMetrics_dropped_lines [OF fmt fin] buf obtain Lf where
    Lf: "lines_drain s (sendMetrics_format s) MetricsPipeline flds (pre @ recM # post) (world st)
           = Returns Lf"
    and dr: "dropped = droppedRecords Lf"
    by auto
  from lines_flushed_never_dropped [OF d' L1' f a sent Lf]
  show "set (currentRecords L1) \<inter> set dropped = {}"
    by (simp add: dr)
qed

theorem failed_flush_drops_its_records_witness:
  "sendLogs_loop (demo_sender 5 (fail_at 1)) [] [''aaaa''] (init_locals empty_world) =
     Returns \<lparr>l_body = ''aaaa'', l_errs = [], droppedRecords = [], currentRecords = [''aaaa''],
              l_world = empty_world\<rparr>
   \<and> (\<exists>st'. sendLogs (demo_sender 5 (fail_at 1)) [] (demo_state [''aaaa'', ''bbbb'', ''cccc''] []) =
           Returns (([''bbbb''],
                     Some (Errorf ''failed sending data: status: 500 Internal Server Error'')), st')
         \<and> map Data (requests (world st')) = [''aaaa'', ''bbbb'', ''cccc''])
   \<and> set [''aaaa''] \<inter> set [''bbbb''] = {}"
proof -
  let ?s = "demo_sender 5 (fail_at 1) :: (string, string, string) sender"
  let ?st = "demo_state [''aaaa'', ''bbbb'', ''cccc''] []"
  let ?L1 = "\<lparr>l_body = ''aaaa'', l_errs = [], droppedRecords = [], currentRecords = [''aaaa''],
              l_world = empty_world\<rparr> :: string locals"
  have L1: "sendLogs_loop ?s [] [''aaaa''] (init_locals (world ?st)) = Returns ?L1"
    by (simp add: sendLogs_iter_lines lines_iter_def lines_account_def appendAndSend_eq
        demo_format init_locals_def demo_state_def)
  have "\<exists>w'. appendAndSend ?s ''bbbb'' LogsPipeline (l_body ?L1) [] (l_world ?L1) =
          Returns ((\<lparr>sent = True, appended = True\<rparr>, None), ''bbbb'', w')"
    by (simp add: appendAndSend_eq demo_limit demo_send demo_answers fail_at_def
        empty_world_def Let_def)
  then obtain w' where a:
    "appendAndSend ?s ''bbbb'' LogsPipeline (l_body ?L1) [] (l_world ?L1) =
       Returns ((\<lparr>sent = True, appended = True\<rparr>, None), ''bbbb'', w')"
    by blast
  have buf: "logBuffer ?st = [''aaaa''] @ ''bbbb'' # [''cccc'']"
    by (simp add: demo_state_def)
  have dist: "distinct (logBuffer ?st)"
    by (simp add: demo_state_def)
  have sent: "sent \<lparr>sent = True, appended = True\<rparr>" by simp
  have run: "\<exists>st'. sendLogs ?s [] ?st =
      Returns (([''bbbb''], Some (Errorf ''failed sending data: status: 500 Internal Server Error'')),
               st')
      \<and> map Data (requests (world st')) = [''aaaa'', ''bbbb'', ''cccc'']"
    by (simp add: sendLogs_lines demo_text lines_drain_def lines_flush_def lines_iter_def
        lines_account_def appendAndSend_eq demo_format demo_limit demo_send demo_answers
        fail_at_def init_locals_def demo_state_def empty_world_def Let_def)
  then obtain st' where fin: "sendLogs ?s [] ?st =
      Returns (([''bbbb''], Some (Errorf ''failed sending data: status: 500 Internal Server Error'')),
               st')"
    by blast
  note t = failed_flush_drops_its_records
    [where s = "?s" and st = "?st" and rec = "''bbbb''" and flds = "[]"]
  note never = t [THEN conjunct2, THEN conjunct1, rule_format, THEN conjunct2, rule_format]
  have kept: "set (currentRecords ?L1) \<inter> set [''bbbb''] = {}"
    by (rule never [OF demo_text buf L1 dist demo_format a sent fin])
  from L1 have L1': "sendLogs_loop ?s [] [''aaaa''] (init_locals empty_world) = Returns ?L1"
    by (simp add: demo_state_def)
  from kept run L1' show ?thesis
    by simp
qed

end
